theory Spec2Isabelle
  imports Complex_Main "HOL-Library.Word" "HOL-Library.AList" "HOL-Library.Monad_Syntax"
begin

section \<open>Go strings\<close>

text \<open>
  A Go string is a byte sequence, here a \<open>string\<close> (a list of 8-bit characters).  The
  functions of package \<open>strings\<close> and \<open>path/filepath\<close> that the font code calls are
  written out on bytes.  \<open>strings.ToLower\<close> and \<open>strings.TrimSpace\<close> act on the ASCII
  range (letters \<open>A\<close> to \<open>Z\<close>; tab, line feed, vertical tab, form feed, carriage return
  and space); bytes from \<open>0x80\<close> on are left as they are.  No general theorem below
  unfolds either of them.
\<close>

definition lower_byte :: "char \<Rightarrow> char" where
  "lower_byte c =
     (let n = (of_char c :: nat) in if 65 \<le> n \<and> n \<le> 90 then char_of (n + 32) else c)"

definition ToLower :: "string \<Rightarrow> string" where
  "ToLower s = map lower_byte s"

definition isSpace :: "char \<Rightarrow> bool" where
  "isSpace c = (c \<in> set [CHR 0x09, CHR 0x0A, CHR 0x0B, CHR 0x0C, CHR 0x0D, CHR '' ''])"

definition TrimSpace :: "string \<Rightarrow> string" where
  "TrimSpace s = rev (dropWhile isSpace (rev (dropWhile isSpace s)))"

definition HasPrefix :: "string \<Rightarrow> string \<Rightarrow> bool" where
  "HasPrefix s p = (take (length p) s = p)"

definition HasSuffix :: "string \<Rightarrow> string \<Rightarrow> bool" where
  "HasSuffix s suf = (length suf \<le> length s \<and> drop (length s - length suf) s = suf)"

definition TrimSuffix :: "string \<Rightarrow> string \<Rightarrow> string" where
  "TrimSuffix s suf = (if HasSuffix s suf then take (length s - length suf) s else s)"

text \<open>\<open>strings.Index\<close>: the position of the first occurrence, \<open>-1\<close> when there is none.\<close>

fun Index :: "string \<Rightarrow> string \<Rightarrow> int" where
  "Index [] sub = (if sub = [] then 0 else - 1)"
| "Index (c # s) sub =
     (if HasPrefix (c # s) sub then 0
      else (let r = Index s sub in if r < 0 then - 1 else r + 1))"

definition Contains :: "string \<Rightarrow> string \<Rightarrow> bool" where
  "Contains s sub = (0 \<le> Index s sub)"

text \<open>\<open>strings.Split(s, sep)\<close> for a separator of one byte: an empty string gives one
  empty field.\<close>

fun Split :: "string \<Rightarrow> char \<Rightarrow> string list" where
  "Split [] sep = [[]]"
| "Split (c # s) sep =
     (if c = sep then [] # Split s sep
      else (case Split s sep of [] \<Rightarrow> [[c]] | w # ws \<Rightarrow> (c # w) # ws))"

text \<open>\<open>strings.Replace(s, old, new, 1)\<close> for a non-empty \<open>old\<close>, and
  \<open>strings.Replace(s, old, new, -1)\<close> for an \<open>old\<close> of one byte.\<close>

fun ReplaceFirst :: "string \<Rightarrow> string \<Rightarrow> string \<Rightarrow> string" where
  "ReplaceFirst [] old new = []"
| "ReplaceFirst (c # s) old new =
     (if HasPrefix (c # s) old then new @ drop (length old) (c # s)
      else c # ReplaceFirst s old new)"

definition ReplaceAll :: "string \<Rightarrow> char \<Rightarrow> string \<Rightarrow> string" where
  "ReplaceAll s old new = concat (map (\<lambda>c. if c = old then new else [c]) s)"

text \<open>\<open>filepath.Split\<close> and \<open>filepath.Ext\<close> with the separator \<open>/\<close>: the file part is
  what follows the last separator, the extension what starts at the last dot of the
  file part.\<close>

definition file_part :: "string \<Rightarrow> string" where
  "file_part path = rev (takeWhile (\<lambda>c. c \<noteq> CHR ''/'') (rev path))"

definition Ext :: "string \<Rightarrow> string" where
  "Ext path =
     (let f = file_part path
      in if CHR ''.'' \<in> set f then CHR ''.'' # rev (takeWhile (\<lambda>c. c \<noteq> CHR ''.'') (rev f))
         else [])"

text \<open>Reading a Go map of strings gives the empty string for a missing key.\<close>

definition map_get :: "(string \<times> string) list \<Rightarrow> string \<Rightarrow> string" where
  "map_get m k = (case map_of m k of None \<Rightarrow> [] | Some v \<Rightarrow> v)"

section \<open>The font library\<close>

text \<open>
  Sizes are \<open>float64\<close> and \<open>float32\<close> values in the source.  The model takes the finite
  ones, as rationals; NaN and the infinities are outside it.  A loaded face is a handle.
  Go maps are association lists with distinct keys (\<open>AList.update\<close>, \<open>AList.delete\<close>);
  the code never iterates over a map.  \<open>FontPaths\<close> is \<open>None\<close> for the nil slice that
  \<open>Init\<close> tests for.  The field \<open>FontInfo\<close>, which only the font chooser reads, and the
  two mutexes are left out.
\<close>

type_synonym float = rat
type_synonym Face = nat

record FontLib =
  FontPaths :: "string list option"
  FontsAvail :: "(string \<times> string) list"
  Faces :: "(string \<times> (float \<times> Face) list) list"

text \<open>
  What the code reaches outside the repository: the directory walk of \<open>filepath.Walk\<close>
  (the entries visited under a root, in order, each readable or not), the file reader
  and the two font parsers.  Their errors are values of \<open>ext_error\<close>.
\<close>

datatype walk_entry = Visit string | VisitErr string

type_synonym ext_error = string

record extern =
  Walk :: "string \<Rightarrow> walk_entry list"
  ReadFile :: "string \<Rightarrow> ext_error + string"
  sfnt_Parse :: "string \<Rightarrow> ext_error + nat"
  opentype_NewFace :: "nat \<Rightarrow> float \<Rightarrow> ext_error + Face"
  truetype_Parse :: "string \<Rightarrow> ext_error + nat"
  truetype_NewFace :: "nat \<Rightarrow> float \<Rightarrow> Face"

datatype font_error =
    NotFound string "string list"
  | LoadError ext_error

datatype fevent =
    Print_updating "string list"
  | Log_no_font_paths
  | Print_error_accessing string
  | Log_error_walking string
  | Call_LoadFontFace string float
  | Log_error_loading string
  | Log_could_not_find_modified string
  | Log_error font_error

definition paths_of :: "FontLib \<Rightarrow> string list" where
  "paths_of fl = (case FontPaths fl of None \<Rightarrow> [] | Some ps \<Rightarrow> ps)"

definition FontMods :: "string list" where
  "FontMods = [''Bold'', ''Italic'', ''Oblique'']"

fun SpaceFontMods_loop :: "string list \<Rightarrow> string \<Rightarrow> string" where
  "SpaceFontMods_loop [] fn = fn"
| "SpaceFontMods_loop (md # mods) fn =
     (let bi = Index fn md
      in SpaceFontMods_loop mods
           (if 0 < bi \<and> fn ! nat (bi - 1) \<noteq> CHR '' ''
            then ReplaceFirst fn md (CHR '' '' # md) else fn))"

definition SpaceFontMods :: "string \<Rightarrow> string" where
  "SpaceFontMods fn = SpaceFontMods_loop FontMods fn"

definition FontExts :: "string list" where
  "FontExts = [''.ttf'', ''.ttc'']"

definition AltFontMap :: "(string \<times> string) list" where
  "AltFontMap =
    [(''arial'', ''Arial''), (''ariblk'', ''Arial Black''), (''candara'', ''Candara''),
     (''calibri'', ''Calibri''), (''cambria'', ''Cambria''), (''cour'', ''Courier New''),
     (''constan'', ''Constantia''), (''consola'', ''Console''), (''comic'', ''Comic Sans MS''),
     (''corbel'', ''Corbel''), (''framd'', ''Franklin Gothic Medium''),
     (''georgia'', ''Georgia''), (''gadugi'', ''Gadugi''), (''malgun'', ''Malgun Gothic''),
     (''mmrtex'', ''Myanmar Text''), (''pala'', ''Palatino''), (''segoepr'', ''Segoe Print''),
     (''segoesc'', ''Segoe Script''), (''segoeui'', ''Segoe UI''),
     (''segui'', ''Segoe UI Historic''), (''tahoma'', ''Tahoma''),
     (''taile'', ''Traditional Arabic''), (''times'', ''Times New Roman''),
     (''trebuc'', ''Trebuchet''), (''verdana'', ''Verdana'')]"

text \<open>The body of the walk function of \<open>FontsAvailFromPath\<close> for an entry that could be
  read: the family name derived from the file name, and the entry added to \<open>FontsAvail\<close>
  unless its key is there already.\<close>

definition font_name_of :: "string \<Rightarrow> string \<Rightarrow> string" where
  "font_name_of path ext =
     (let fn0 = file_part path;
          fn = take (length fn0 - length ext) fn0;
          bfn1 = TrimSuffix fn ''bd'';
          bfn2 = TrimSuffix bfn1 ''bi'';
          bfn3 = TrimSuffix bfn2 ''z'';
          bfn4 = TrimSuffix bfn3 ''b'';
          bfn = (if bfn4 \<noteq> ''calibri'' \<and> bfn4 \<noteq> ''gadugui'' \<and> bfn4 \<noteq> ''segoeui''
                    \<and> bfn4 \<noteq> ''segui''
                 then TrimSuffix bfn4 ''i'' else bfn4);
          fn1 = (case map_of AltFontMap bfn of
                   Some afn \<Rightarrow>
                     afn @ (if HasSuffix fn ''bd'' \<or> HasSuffix fn ''b'' then '' Bold''
                            else if HasSuffix fn ''bi'' \<or> HasSuffix fn ''z'' then '' Bold Italic''
                            else if HasSuffix fn ''i'' then '' Italic''
                            else [])
                 | None \<Rightarrow> ReplaceAll (ReplaceAll fn (CHR ''_'') '' '') (CHR ''-'') '' '')
      in SpaceFontMods (TrimSuffix fn1 '' Regular''))"

definition walk_file :: "(string \<times> string) list \<Rightarrow> string \<Rightarrow> (string \<times> string) list" where
  "walk_file avail path =
     (let ext = ToLower (Ext path)
      in if ext \<notin> set FontExts then avail
         else (let basefn = ToLower (font_name_of path ext)
               in if map_of avail basefn = None then AList.update basefn path avail
                  else avail))"

text \<open>The walk stops at the first entry that cannot be read, and reports it.\<close>

fun walk_entries ::
  "(string \<times> string) list \<Rightarrow> walk_entry list \<Rightarrow> (string \<times> string) list \<times> string option"
where
  "walk_entries avail [] = (avail, None)"
| "walk_entries avail (VisitErr p # es) = (avail, Some p)"
| "walk_entries avail (Visit p # es) = walk_entries (walk_file avail p) es"

definition FontsAvailFromPath ::
  "extern \<Rightarrow> (string \<times> string) list \<Rightarrow> string \<Rightarrow> (string \<times> string) list \<times> fevent list"
where
  "FontsAvailFromPath X avail path =
     (case walk_entries avail (Walk X path) of
        (avail', None) \<Rightarrow> (avail', [])
      | (avail', Some p) \<Rightarrow> (avail', [Print_error_accessing p, Log_error_walking path]))"

fun scan_paths ::
  "extern \<Rightarrow> (string \<times> string) list \<Rightarrow> string list \<Rightarrow> (string \<times> string) list \<times> fevent list"
where
  "scan_paths X avail [] = (avail, [])"
| "scan_paths X avail (p # ps) =
     (case FontsAvailFromPath X avail p of
        (avail', ev) \<Rightarrow> (case scan_paths X avail' ps of (avail'', ev') \<Rightarrow> (avail'', ev @ ev')))"

definition UpdateFontsAvail :: "extern \<Rightarrow> FontLib \<Rightarrow> bool \<times> FontLib \<times> fevent list" where
  "UpdateFontsAvail X fl =
     (if length (paths_of fl) = 0 then (False, fl, [Log_no_font_paths])
      else (let avail0 = (if 0 < length (FontsAvail fl) then [] else FontsAvail fl)
            in case scan_paths X avail0 (paths_of fl) of
                 (avail, ev) \<Rightarrow> (0 < length avail, fl\<lparr>FontsAvail := avail\<rparr>, ev)))"

definition Init :: "extern \<Rightarrow> FontLib \<Rightarrow> FontLib \<times> fevent list" where
  "Init X fl =
     (if FontPaths fl = None
      then (fl\<lparr>FontPaths := Some [], FontsAvail := [], Faces := []\<rparr>, [])
      else if length (FontsAvail fl) = 0
      then (case UpdateFontsAvail X fl of
              (_, fl', ev) \<Rightarrow> (fl', Print_updating (paths_of fl) # ev))
      else (fl, []))"

definition LoadFontFace :: "extern \<Rightarrow> string \<Rightarrow> float \<Rightarrow> ext_error + Face" where
  "LoadFontFace X path points =
     (case ReadFile X path of
        Inl err \<Rightarrow> Inl err
      | Inr fontBytes \<Rightarrow>
          (if ToLower (Ext path) = ''.otf''
           then (case sfnt_Parse X fontBytes of
                   Inl err \<Rightarrow> Inl err
                 | Inr f \<Rightarrow> opentype_NewFace X f points)
           else (case truetype_Parse X fontBytes of
                   Inl err \<Rightarrow> Inl err
                 | Inr f \<Rightarrow> Inr (truetype_NewFace X f points))))"

text \<open>The cache lookup at the head of \<open>Font\<close>: a face map for the name, and in it a face
  for the size.\<close>

definition cached_face :: "FontLib \<Rightarrow> string \<Rightarrow> float \<Rightarrow> Face option" where
  "cached_face fl fontnm points =
     (case map_of (Faces fl) fontnm of
        None \<Rightarrow> None
      | Some facemap \<Rightarrow> map_of facemap points)"

definition store_face :: "FontLib \<Rightarrow> string \<Rightarrow> float \<Rightarrow> Face \<Rightarrow> FontLib" where
  "store_face fl fontnm points face =
     (let facemap = (case map_of (Faces fl) fontnm of None \<Rightarrow> [] | Some m \<Rightarrow> m)
      in fl\<lparr>Faces := AList.update fontnm (AList.update points face facemap) (Faces fl)\<rparr>)"

definition Font ::
  "extern \<Rightarrow> FontLib \<Rightarrow> string \<Rightarrow> float \<Rightarrow> (font_error + Face) \<times> FontLib \<times> fevent list"
where
  "Font X fl0 fontnm0 points =
     (let fontnm = ToLower fontnm0
      in case Init X fl0 of
           (fl, ev) \<Rightarrow>
             (case cached_face fl fontnm points of
                Some face \<Rightarrow> (Inr face, fl, ev)
              | None \<Rightarrow>
                  (let path = map_get (FontsAvail fl) fontnm
                   in if path \<noteq> []
                      then (case LoadFontFace X path points of
                              Inl err \<Rightarrow>
                                (Inl (LoadError err),
                                 fl\<lparr>FontsAvail := AList.delete fontnm (FontsAvail fl)\<rparr>,
                                 ev @ [Call_LoadFontFace path points, Log_error_loading fontnm])
                            | Inr face \<Rightarrow>
                                (Inr face, store_face fl fontnm points face,
                                 ev @ [Call_LoadFontFace path points]))
                      else (Inl (NotFound fontnm (paths_of fl)), fl, ev))))"

text \<open>\<open>FontAvail\<close> has a receiver \<open>fl\<close>, and reads the package variable \<open>FontLibrary\<close>,
  here the first argument.\<close>

definition FontAvail :: "FontLib \<Rightarrow> FontLib \<Rightarrow> string \<Rightarrow> bool" where
  "FontAvail FontLibrary fl fontnm = (map_of (FontsAvail FontLibrary) (ToLower fontnm) \<noteq> None)"

text \<open>The calls of the decoder \<open>LoadFontFace\<close> among the events of a run.\<close>

fun is_decode :: "fevent \<Rightarrow> bool" where
  "is_decode (Call_LoadFontFace p s) = True"
| "is_decode _ = False"

definition decode_calls :: "fevent list \<Rightarrow> fevent list" where
  "decode_calls ev = filter is_decode ev"

section \<open>Font styles\<close>

datatype FontStyles = FontNormal | FontItalic | FontOblique | FontStylesN

datatype FontWeights =
    WeightNormal | WeightBold | WeightBolder | WeightLighter
  | Weight100 | Weight200 | Weight300 | Weight400 | Weight500 | Weight600
  | Weight700 | Weight800 | Weight900 | FontWeightsN

text \<open>
  Package \<open>units\<close> is not among the sources.  Of a \<open>units.Value\<close> the code reads the
  field \<open>Dots\<close>; of the units it names \<open>Pt\<close> and \<open>Px\<close>; of a \<open>units.Context\<close> it calls
  \<open>ToDots\<close> and \<open>SetFont\<close>, which are taken as parameters below, over any type \<open>'c\<close>
  of contexts.
\<close>

datatype Units = Pt | Px

record Value =
  Val :: float
  Un' :: Units
  Dots :: float

text \<open>
  The fields of \<open>FontStyle\<close> that \<open>FaceNm\<close>, \<open>LoadFont\<close>, \<open>ComputeMetrics\<close> and
  \<open>SetUnitContext\<close> read or write.  The record is extensible: the functions below are
  defined for any extension, and leave the other fields (colours, opacity, stretch,
  variant, decoration, shift) as they are.  \<open>Face\<close> is \<open>None\<close> for the nil interface.
\<close>

record FontStyle =
  Size :: Value
  Family :: string
  Style :: FontStyles
  Weight :: FontWeights
  Face :: "Face option"
  Height :: float
  Em :: float
  Ex' :: float
  Ch :: float
  Rem :: float
  FaceName :: string

text \<open>
  A \<open>fixed.Int26_6\<close> is a 32-bit integer, a \<open>fixed.Rectangle26_6\<close> four of them
  (\<open>Min.X\<close>, \<open>Min.Y\<close>, \<open>Max.X\<close>, \<open>Max.Y\<close>).  What a face reports (\<open>Metrics().Height\<close>,
  \<open>GlyphBounds\<close> with its \<open>ok\<close> result as an option), the conversion
  \<open>FixedToFloat32\<close>, which is defined in another file of the package, the built-in
  face \<open>basicfont.Face7x13\<close> and the two methods of the unit context are parameters.
\<close>

record Rectangle26_6 =
  MinX :: "32 word"
  MinY :: "32 word"
  MaxX :: "32 word"
  MaxY :: "32 word"

record 'c face_extern =
  Metrics_Height :: "Face \<Rightarrow> 32 word"
  GlyphBounds :: "Face \<Rightarrow> char \<Rightarrow> (Rectangle26_6 \<times> 32 word) option"
  FixedToFloat32 :: "32 word \<Rightarrow> float"
  Face7x13 :: Face
  ToDots :: "'c \<Rightarrow> float \<Rightarrow> Units \<Rightarrow> float"
  SetFont :: "'c \<Rightarrow> float \<Rightarrow> float \<Rightarrow> float \<Rightarrow> float \<Rightarrow> 'c"

text \<open>\<open>math.Round\<close>: to the nearest integer, halves away from zero.  On a finite
  \<open>float32\<close> the conversions around it in the source are exact.\<close>

definition Round :: "float \<Rightarrow> float" where
  "Round x = (if x < 0 then - of_int \<lfloor>- x + 1 / 2\<rfloor> else of_int \<lfloor>x + 1 / 2\<rfloor>)"

text \<open>
  \<open>FaceNm\<close>.  The loop over the family names stops at the first name that is
  available; the \<open>break\<close> statements inside the \<open>switch\<close> leave the \<open>switch\<close> only, so
  a generic family name sets \<open>fnm\<close> and the loop goes on.  \<open>Prefs.FontFamily\<close> and
  the package variable \<open>FontLibrary\<close> are arguments.
\<close>

definition family_switch :: "FontLib \<Rightarrow> string \<Rightarrow> string \<Rightarrow> string" where
  "family_switch FontLibrary fn fnm =
     (if fn = ''times'' then ''Times New Roman''
      else if fn = ''serif'' then ''Times New Roman''
      else if fn = ''sans-serif'' then ''Arial''
      else if fn = ''courier'' then ''Courier New''
      else if fn = ''monospace'' then
        (if FontAvail FontLibrary FontLibrary ''Andale Mono'' then ''Andale Mono''
         else ''Courier New'')
      else if fn = ''cursive'' then
        (if FontAvail FontLibrary FontLibrary ''Comic Sans'' then ''Comic Sans''
         else if FontAvail FontLibrary FontLibrary ''Comic Sans MS'' then ''Comic Sans MS''
         else fnm)
      else if fn = ''fantasy'' then
        (if FontAvail FontLibrary FontLibrary ''Impact'' then ''Impact''
         else if FontAvail FontLibrary FontLibrary ''Impac'' then ''Impac''
         else fnm)
      else fnm)"

fun family_loop :: "FontLib \<Rightarrow> string list \<Rightarrow> string \<Rightarrow> string" where
  "family_loop FontLibrary [] fnm = fnm"
| "family_loop FontLibrary (fn0 # nms) fnm =
     (let fn = TrimSpace fn0
      in if FontAvail FontLibrary FontLibrary fn then fn
         else family_loop FontLibrary nms (family_switch FontLibrary fn fnm))"

definition resolved_family :: "string \<Rightarrow> FontLib \<Rightarrow> string \<Rightarrow> string" where
  "resolved_family prefs_FontFamily FontLibrary family =
     family_loop FontLibrary (Split family (CHR '',''))
       (if prefs_FontFamily = [] then ''Arial'' else prefs_FontFamily)"

definition face_mods :: "FontStyles \<Rightarrow> FontWeights \<Rightarrow> string \<Rightarrow> string" where
  "face_mods st wt fnm =
     (if st = FontItalic \<and> wt = WeightBold then
        (if \<not> Contains fnm ''Bold'' then ''Bold '' else [])
        @ (if \<not> Contains fnm ''Italic'' then ''Italic'' else [])
      else if st = FontOblique \<and> wt = WeightBold then
        (if \<not> Contains fnm ''Bold'' then ''Bold '' else [])
        @ (if \<not> Contains fnm ''Oblique'' then ''Oblique'' else [])
      else if st = FontItalic then
        (if \<not> Contains fnm ''Italic'' then ''Italic'' else [])
      else if st = FontOblique then
        (if \<not> Contains fnm ''Oblique'' then ''Obqlique'' else [])
      else if wt = WeightBold then
        (if \<not> Contains fnm ''Bold'' then ''Bold '' else [])
      else [])"

definition FaceNm :: "string \<Rightarrow> FontLib \<Rightarrow> 'a FontStyle_scheme \<Rightarrow> string \<times> fevent list" where
  "FaceNm prefs_FontFamily FontLibrary fs =
     (let fnm = resolved_family prefs_FontFamily FontLibrary (Family fs);
          mods = face_mods (Style fs) (Weight fs) fnm
      in if mods \<noteq> []
         then (let fmod = fnm @ '' '' @ TrimSpace mods
               in if FontAvail FontLibrary FontLibrary fmod then (fmod, [])
                  else (fnm, [Log_could_not_find_modified fmod]))
         else (fnm, []))"

definition ComputeMetrics ::
  "'c face_extern \<Rightarrow> 'a FontStyle_scheme \<Rightarrow> 'c \<Rightarrow> 'a FontStyle_scheme"
where
  "ComputeMetrics E fs ctxt =
     (case Face fs of
        None \<Rightarrow> fs
      | Some face \<Rightarrow>
          (let intDots0 = Round (Dots (Size fs));
               intDots = (if intDots0 = 0 then 12 else intDots0);
               fs1 = fs\<lparr>Height := of_int \<lceil>FixedToFloat32 E (Metrics_Height E face)\<rceil>,
                       Em := intDots\<rparr>;
               fs2 = (case GlyphBounds E face (CHR ''x'') of
                        Some (xb, adv) \<Rightarrow> fs1\<lparr>Ex' := FixedToFloat32 E (MaxY xb - MinY xb)\<rparr>
                      | None \<Rightarrow> fs1\<lparr>Ex' := (1 / 2) * Em fs1\<rparr>);
               fs3 = (case GlyphBounds E face (CHR ''0'') of
                        Some (xb, adv) \<Rightarrow> fs2\<lparr>Ch := FixedToFloat32 E (MaxX xb - MinX xb)\<rparr>
                      | None \<Rightarrow> fs2\<lparr>Ch := (1 / 2) * Em fs2\<rparr>)
           in fs3\<lparr>Rem := ToDots E ctxt 12 Pt\<rparr>))"

definition SetUnitContext :: "'c face_extern \<Rightarrow> 'a FontStyle_scheme \<Rightarrow> 'c \<Rightarrow> 'c" where
  "SetUnitContext E fs ctxt =
     (if Face fs \<noteq> None then SetFont E ctxt (Em fs) (Ex' fs) (Ch fs) (Rem fs) else ctxt)"

text \<open>
  \<open>LoadFont\<close> works on the style, the unit context and the package variable
  \<open>FontLibrary\<close>, and returns all three with the events of the run.  The request it
  makes to the library is recorded as \<open>Call_Font\<close> with the name and the size asked for.
  It calls itself once, with an empty fallback, when the request fails, no face is held
  and a fallback name was given.
\<close>

datatype levent = Call_Font string float | Lib fevent

function LoadFont ::
  "'c face_extern \<Rightarrow> extern \<Rightarrow> string \<Rightarrow> FontLib \<Rightarrow> 'a FontStyle_scheme \<Rightarrow> 'c \<Rightarrow> string
     \<Rightarrow> FontLib \<times> 'a FontStyle_scheme \<times> 'c \<times> levent list"
where
  "LoadFont E X prefs_FontFamily FontLibrary fs ctxt fallback =
     (case FaceNm prefs_FontFamily FontLibrary fs of
        (fnm, ev0) \<Rightarrow>
          (let fs1 = fs\<lparr>FaceName := fnm\<rparr>;
               intDots0 = Round (Dots (Size fs1));
               intDots = (if intDots0 = 0 then 12 else intDots0)
           in case Font X FontLibrary (FaceName fs1) intDots of
                (res, lib1, ev1) \<Rightarrow>
                  (let ev = map Lib ev0 @ [Call_Font (FaceName fs1) intDots] @ map Lib ev1;
                       (lib2, fs2, ctxt2, ev2) =
                         (case res of
                            Inl err \<Rightarrow>
                              (if Face fs1 = None
                               then (if fallback \<noteq> []
                                     then (case LoadFont E X prefs_FontFamily lib1
                                                  (fs1\<lparr>FaceName := fallback\<rparr>) ctxt [] of
                                             (lib', fs', ctxt', ev') \<Rightarrow>
                                               (lib', fs', ctxt', ev @ [Lib (Log_error err)] @ ev'))
                                     else (lib1, fs1\<lparr>Face := Some (Face7x13 E)\<rparr>, ctxt,
                                           ev @ [Lib (Log_error err)]))
                               else (lib1, fs1, ctxt, ev @ [Lib (Log_error err)]))
                          | Inr face \<Rightarrow> (lib1, fs1\<lparr>Face := Some face\<rparr>, ctxt, ev));
                       fs3 = ComputeMetrics E fs2 ctxt2
                   in (lib2, fs3, SetUnitContext E fs3 ctxt2, ev2))))"
  by pat_completeness auto
termination
  by (relation "measure (\<lambda>(E, X, p, lib, fs, ctxt, fallback). if fallback = [] then 0 else 1)")
    auto

declare LoadFont.simps [simp del]

text \<open>The requests to the font library among the events of \<open>LoadFont\<close>, as pairs of
  name and size.\<close>

fun font_requests :: "levent list \<Rightarrow> (string \<times> float) list" where
  "font_requests [] = []"
| "font_requests (Call_Font n s # ev) = (n, s) # font_requests ev"
| "font_requests (Lib e # ev) = font_requests ev"

text \<open>What \<open>FaceNm\<close> returns once the modifier words are known: the modified name when
  the library has it, the plain name and a log line when not.\<close>

definition with_modifier :: "FontLib \<Rightarrow> string \<Rightarrow> string \<Rightarrow> string \<times> fevent list" where
  "with_modifier lib fnm word =
     (if FontAvail lib lib (fnm @ '' '' @ word) then (fnm @ '' '' @ word, [])
      else (fnm, [Log_could_not_find_modified (fnm @ '' '' @ word)]))"

section \<open>Go values as package \<open>reflect\<close> sees them\<close>

text \<open>
  \<open>StructTableView\<close> holds its slice in an \<open>interface{}\<close> and works on it through
  package \<open>reflect\<close>.  The model covers the basic types \<open>int\<close>, \<open>string\<close> and \<open>bool\<close>,
  named struct types with their field types, slice types and pointer types; arrays,
  maps, channels and functions are outside it, and struct fields are taken as exported.
\<close>

datatype gotype =
    TInt | TString | TBool
  | TStruct string "gotype list"
  | TSlice gotype
  | TPtr gotype

datatype Kind = KInt | KString | KBool | KStruct | KSlice | KPtr

fun Kind_of :: "gotype \<Rightarrow> Kind" where
  "Kind_of TInt = KInt"
| "Kind_of TString = KString"
| "Kind_of TBool = KBool"
| "Kind_of (TStruct nm fs) = KStruct"
| "Kind_of (TSlice t) = KSlice"
| "Kind_of (TPtr t) = KPtr"

text \<open>
  A value: \<open>VNil\<close> is the nil pointer and the nil slice; \<open>VPtr a\<close> points to the heap
  cell \<open>a\<close>; \<open>VSlice arr n\<close> is a slice of length \<open>n\<close> together with its backing array
  from the first element of the slice on, so that \<open>length arr\<close> is its capacity and
  \<open>take n arr\<close> are its elements.  Other slice headers that share the array are not
  modelled.  The heap maps the addresses that pointers hold to the values they point to.
\<close>

datatype goval =
    VInt int | VString string | VBool bool
  | VStruct "goval list"
  | VNil
  | VPtr nat
  | VSlice "goval list" nat

type_synonym heap = "nat \<Rightarrow> goval option"

text \<open>An \<open>interface{}\<close> is nil, or a dynamic type with a value.\<close>

type_synonym iface = "(gotype \<times> goval) option"

text \<open>The zero value of a type, which \<open>reflect.New(t).Elem()\<close> holds.\<close>

fun zero_val :: "gotype \<Rightarrow> goval" where
  "zero_val TInt = VInt 0"
| "zero_val TString = VString []"
| "zero_val TBool = VBool False"
| "zero_val (TStruct nm fs) = VStruct (map zero_val fs)"
| "zero_val (TSlice t) = VNil"
| "zero_val (TPtr t) = VNil"

text \<open>
  The comparison \<open>a != b\<close> of two interface values: values of different dynamic types
  differ; values of one comparable type are compared; on values of one type that is not
  comparable (a slice type, or a struct type with such a field) the comparison panics,
  here \<open>None\<close>.
\<close>

fun comparable :: "gotype \<Rightarrow> bool" where
  "comparable (TSlice t) = False"
| "comparable (TStruct nm fs) = list_all comparable fs"
| "comparable t = True"

fun iface_neq :: "iface \<Rightarrow> iface \<Rightarrow> bool option" where
  "iface_neq None None = Some False"
| "iface_neq None (Some b) = Some True"
| "iface_neq (Some a) None = Some True"
| "iface_neq (Some (t1, v1)) (Some (t2, v2)) =
     (if t1 \<noteq> t2 then Some True
      else if comparable t1 then Some (v1 \<noteq> v2)
      else None)"

text \<open>
  A \<open>reflect.Value\<close> is the zero Value (\<open>Invalid\<close>) or a type with a value.  Every
  operation that panics in package \<open>reflect\<close> returns \<open>None\<close>.
\<close>

datatype rvalue = Invalid | RV gotype goval

definition ValueOf :: "iface \<Rightarrow> rvalue" where
  "ValueOf i = (case i of None \<Rightarrow> Invalid | Some (t, v) \<Rightarrow> RV t v)"

text \<open>\<open>reflect.TypeOf(i).Elem()\<close>: the type of the nil interface is nil, and \<open>Elem\<close> is
  defined on pointer and slice types.\<close>

definition TypeOf :: "iface \<Rightarrow> gotype option" where
  "TypeOf i = (case i of None \<Rightarrow> None | Some (t, v) \<Rightarrow> Some t)"

fun TypeElem :: "gotype \<Rightarrow> gotype option" where
  "TypeElem (TSlice t) = Some t"
| "TypeElem (TPtr t) = Some t"
| "TypeElem t = None"

fun NumField :: "gotype \<Rightarrow> nat option" where
  "NumField (TStruct nm fs) = Some (length fs)"
| "NumField t = None"

fun Field_types :: "gotype \<Rightarrow> gotype list" where
  "Field_types (TStruct nm fs) = fs"
| "Field_types t = []"

definition rType :: "rvalue \<Rightarrow> gotype option" where
  "rType rv = (case rv of Invalid \<Rightarrow> None | RV t v \<Rightarrow> Some t)"

text \<open>\<open>kit.NonPtrValue\<close> follows pointers while the kind is \<open>Ptr\<close>; the \<open>Elem\<close> of a nil
  pointer is the zero Value.\<close>

fun NonPtr :: "heap \<Rightarrow> gotype \<Rightarrow> goval \<Rightarrow> rvalue" where
  "NonPtr h (TPtr t) (VPtr a) = (case h a of None \<Rightarrow> Invalid | Some v \<Rightarrow> NonPtr h t v)"
| "NonPtr h (TPtr t) v = Invalid"
| "NonPtr h t v = RV t v"

definition NonPtrValue :: "heap \<Rightarrow> rvalue \<Rightarrow> rvalue" where
  "NonPtrValue h rv = (case rv of Invalid \<Rightarrow> Invalid | RV t v \<Rightarrow> NonPtr h t v)"

text \<open>\<open>kit.IfaceIsNil\<close>: the nil interface, and a nil pointer or nil slice in an
  interface.\<close>

definition IfaceIsNil :: "iface \<Rightarrow> bool" where
  "IfaceIsNil i =
     (case i of
        None \<Rightarrow> True
      | Some (t, v) \<Rightarrow> (Kind_of t = KPtr \<or> Kind_of t = KSlice) \<and> v = VNil)"

fun rLen :: "rvalue \<Rightarrow> nat option" where
  "rLen (RV (TSlice t) (VSlice arr n)) = Some n"
| "rLen (RV (TSlice t) VNil) = Some 0"
| "rLen (RV TString (VString s)) = Some (length s)"
| "rLen rv = None"

text \<open>
  \<open>reflect.Append(s, x)\<close> writes into the spare capacity when there is some, and moves
  the elements to a fresh, larger array when there is none.  The capacity of the fresh
  array is the runtime's choice: \<open>growcap\<close> gives it from the old capacity and the
  length needed, and it is never less than the length needed.
\<close>

definition append_slot ::
  "(nat \<Rightarrow> nat \<Rightarrow> nat) \<Rightarrow> gotype \<Rightarrow> goval list \<Rightarrow> nat \<Rightarrow> goval \<Rightarrow> goval"
where
  "append_slot growcap t arr n x =
     (if n < length arr then VSlice (arr[n := x]) (n + 1)
      else (let c = max (n + 1) (growcap (length arr) (n + 1))
            in VSlice (take n arr @ [x] @ replicate (c - (n + 1)) (zero_val t)) (n + 1)))"

fun Append :: "(nat \<Rightarrow> nat \<Rightarrow> nat) \<Rightarrow> rvalue \<Rightarrow> goval \<Rightarrow> rvalue option" where
  "Append growcap (RV (TSlice t) (VSlice arr n)) x =
     Some (RV (TSlice t) (append_slot growcap t arr n x))"
| "Append growcap (RV (TSlice t) VNil) x =
     Some (RV (TSlice t) (append_slot growcap t [] 0 x))"
| "Append growcap rv x = None"

text \<open>
  \<open>v.Slice(i, j)\<close> panics unless \<open>0 \<le> i \<le> j \<le> cap\<close>.  The result shares the array of
  \<open>v\<close>: it is kept as a window, the offset and the length.  \<open>reflect.Copy(dst, src)\<close>
  between two windows of one array moves the smaller of the two lengths, as
  \<open>memmove\<close> does, and \<open>window_value\<close> is the slice value of a window.
\<close>

fun rSlice :: "rvalue \<Rightarrow> int \<Rightarrow> int \<Rightarrow> (nat \<times> nat) option" where
  "rSlice (RV (TSlice t) (VSlice arr n)) i j =
     (if i < 0 \<or> j < i \<or> int (length arr) < j then None else Some (nat i, nat (j - i)))"
| "rSlice (RV (TSlice t) VNil) i j =
     (if i < 0 \<or> j < i \<or> 0 < j then None else Some (nat i, nat (j - i)))"
| "rSlice rv i j = None"

definition copy_within :: "'a list \<Rightarrow> nat \<Rightarrow> nat \<Rightarrow> nat \<Rightarrow> 'a list" where
  "copy_within arr doff soff n = take doff arr @ take n (drop soff arr) @ drop (doff + n) arr"

fun rCopy :: "rvalue \<Rightarrow> nat \<times> nat \<Rightarrow> nat \<times> nat \<Rightarrow> rvalue" where
  "rCopy (RV t (VSlice arr n)) (doff, dlen) (soff, slen) =
     RV t (VSlice (copy_within arr doff soff (min dlen slen)) n)"
| "rCopy rv dst src = rv"

fun window_value :: "rvalue \<Rightarrow> nat \<times> nat \<Rightarrow> rvalue" where
  "window_value (RV t (VSlice arr n)) (off, len) = RV t (VSlice (drop off arr) len)"
| "window_value rv w = rv"

text \<open>\<open>v.Index(i).Set(x)\<close> panics unless \<open>0 \<le> i < len\<close>.\<close>

fun rIndexSet :: "rvalue \<Rightarrow> int \<Rightarrow> goval \<Rightarrow> rvalue option" where
  "rIndexSet (RV (TSlice t) (VSlice arr n)) i x =
     (if i < 0 \<or> int n \<le> i then None else Some (RV (TSlice t) (VSlice (arr[nat i := x]) n)))"
| "rIndexSet rv i x = None"

text \<open>\<open>p.Elem().Set(v)\<close> stores \<open>v\<close> in the cell that \<open>p\<close> points to.  It panics unless
  \<open>p\<close> is a pointer that is not nil and the type of \<open>v\<close> is the type pointed to.\<close>

fun ElemSet :: "heap \<Rightarrow> rvalue \<Rightarrow> rvalue \<Rightarrow> heap option" where
  "ElemSet h (RV (TPtr t) (VPtr a)) (RV t' v) =
     (if t = t' \<and> h a \<noteq> None then Some (h(a \<mapsto> v)) else None)"
| "ElemSet h p v = None"

section \<open>The struct table view\<close>

text \<open>
  A \<open>ValueView\<close> is a handle: one that comes from outside, as the view to be saved
  after a change, or the view that \<open>ToValueView\<close> makes for the field \<open>fli\<close> of row \<open>i\<close>.
  The record has the fields of \<open>StructTableView\<close> itself; the embedded \<open>Frame\<close> is in
  its extension.

  The widget tree is outside these files.  What the view does to it is recorded as
  events, in the order of the calls: the calls of \<open>UpdateStart\<close>, \<open>UpdateEnd\<close> and
  \<open>SetFullReRender\<close> on the view itself; \<open>StdConfig\<close>, which configures the children
  of the view; \<open>ConfigChildren\<close>, \<open>UpdateStart\<close> and \<open>UpdateEnd\<close> on the layout
  \<open>slice-grid\<close> and on the layout \<open>buttons\<close>; the log line of \<open>SetSlice\<close>; \<open>SaveTmp\<close>
  on the pending-save view; and the emission of \<open>ViewSig\<close>.  An \<open>UpdateEnd\<close> is
  recorded whatever its argument is.  The properties set on the widgets, the
  connection of the signal of the button \<open>Add\<close> and the configuration of the widget
  of each cell are not recorded, and a run that panics has no trace.
\<close>

datatype ValueView = ExternalView nat | CellView nat nat

record StructTableView =
  Slice :: iface
  Title :: string
  Values :: "ValueView option list list"
  TmpSave :: "ValueView option"

datatype vevent =
    UpdateStart
  | UpdateEnd
  | SetFullReRender
  | SaveTmp ValueView
  | ViewSig_Emit
  | Log_not_struct gotype
  | StdConfig
  | Grid_ConfigChildren
  | Grid_UpdateStart
  | Grid_UpdateEnd
  | Buttons_ConfigChildren
  | Buttons_UpdateEnd

text \<open>
  What the widget tree answers during one rebuild: whether the two layouts are found
  among the children (\<open>SliceGrid()\<close> and \<open>ButtonBox()\<close> not nil), and the result
  \<open>mods\<close> of each of the three calls of \<open>ConfigChildren\<close>, which says whether the
  children had to be changed.
\<close>

record widgets =
  StdConfig_mods :: bool
  SliceGrid_present :: bool
  SliceGrid_mods :: bool
  ButtonBox_present :: bool
  ButtonBox_mods :: bool

text \<open>
  \<open>ConfigSliceGrid\<close>.  \<open>ToValueView\<close> is defined in another file of the package: the
  parameter \<open>tvv\<close> says for which field types it returns a view.  \<open>Values\<close> is first
  made of nil cells, one column per field and one cell per row, and stays so when the
  layout \<open>slice-grid\<close> is missing.  The first nested iteration then fills the cells,
  and leaves a cell nil where there is no view.  After \<open>ConfigChildren\<close> on the layout
  the view is marked for a full re-render when the children changed, and the layout
  starts an update when not.  The second nested iteration calls \<open>ConfigWidget\<close> on
  every cell, which panics on a nil one, and the update of the layout is ended.
\<close>

definition grid_cells :: "(gotype \<Rightarrow> bool) \<Rightarrow> gotype list \<Rightarrow> nat \<Rightarrow> ValueView option list list" where
  "grid_cells tvv fs sz =
     map (\<lambda>fli. map (\<lambda>i. if tvv (fs ! fli) then Some (CellView fli i) else None) [0..<sz])
       [0..<length fs]"

definition ConfigSliceGrid ::
  "widgets \<Rightarrow> (gotype \<Rightarrow> bool) \<Rightarrow> heap \<Rightarrow> 'a StructTableView_scheme
     \<Rightarrow> ('a StructTableView_scheme \<times> vevent list) option"
where
  "ConfigSliceGrid W tvv h sv =
     (if IfaceIsNil (Slice sv) then Some (sv, [])
      else do {
        sz \<leftarrow> rLen (NonPtrValue h (ValueOf (Slice sv)));
        t \<leftarrow> TypeOf (Slice sv);
        struTyp \<leftarrow> TypeElem t;
        nfld \<leftarrow> NumField struTyp;
        if \<not> SliceGrid_present W
        then Some (sv\<lparr>Values := replicate nfld (replicate sz None)\<rparr>, [])
        else if 0 < sz \<and> \<not> list_all tvv (Field_types struTyp) then None
        else Some (sv\<lparr>Values := grid_cells tvv (Field_types struTyp) sz\<rparr>,
                   [Grid_ConfigChildren]
                   @ (if SliceGrid_mods W then [SetFullReRender] else [Grid_UpdateStart])
                   @ [Grid_UpdateEnd])
      })"

text \<open>\<open>ConfigSliceButtons\<close> calls \<open>ConfigChildren\<close> on the layout \<open>buttons\<close>, which
  panics when the layout is missing, and ends the update when the children changed.\<close>

definition ConfigSliceButtons ::
  "widgets \<Rightarrow> 'a StructTableView_scheme \<Rightarrow> vevent list option"
where
  "ConfigSliceButtons W sv =
     (if IfaceIsNil (Slice sv) then Some []
      else if \<not> ButtonBox_present W then None
      else Some ([Buttons_ConfigChildren]
                 @ (if ButtonBox_mods W then [Buttons_UpdateEnd] else [])))"

definition UpdateFromSlice ::
  "widgets \<Rightarrow> (gotype \<Rightarrow> bool) \<Rightarrow> heap \<Rightarrow> 'a StructTableView_scheme
     \<Rightarrow> ('a StructTableView_scheme \<times> vevent list) option"
where
  "UpdateFromSlice W tvv h sv =
     do {
       (sv', ev_grid) \<leftarrow> ConfigSliceGrid W tvv h sv;
       ev_buttons \<leftarrow> ConfigSliceButtons W sv';
       Some (sv', [StdConfig] @ ev_grid @ ev_buttons
                  @ (if StdConfig_mods W then [UpdateEnd] else []))
     }"

text \<open>\<open>SetSlice\<close>.  \<open>UpdateStart\<close> is called only when the slice is replaced, and
  \<open>UpdateEnd\<close> at the end of every call that gets there.\<close>

definition SetSlice ::
  "widgets \<Rightarrow> (gotype \<Rightarrow> bool) \<Rightarrow> heap \<Rightarrow> 'a StructTableView_scheme \<Rightarrow> iface
     \<Rightarrow> ValueView option \<Rightarrow> ('a StructTableView_scheme \<times> vevent list) option"
where
  "SetSlice W tvv h sv sl tmpSave =
     do {
       differs \<leftarrow> iface_neq (Slice sv) sl;
       if differs
       then do {
         t \<leftarrow> TypeOf sl;
         struTyp \<leftarrow> TypeElem t;
         if Kind_of struTyp \<noteq> KStruct then Some (sv, [Log_not_struct struTyp])
         else do {
           (sv', ev) \<leftarrow> UpdateFromSlice W tvv h (sv\<lparr>Slice := sl, TmpSave := tmpSave\<rparr>);
           Some (sv', [UpdateStart] @ ev @ [UpdateEnd])
         }
       }
       else do {
         (sv', ev) \<leftarrow> UpdateFromSlice W tvv h (sv\<lparr>TmpSave := tmpSave\<rparr>);
         Some (sv', ev @ [UpdateEnd])
       }
     }"

text \<open>
  \<open>SetSlice\<close> stores a value only after the check of its element type, so the views
  it produces hold nothing or a value whose element type is a struct.
\<close>

definition struct_elems :: "iface \<Rightarrow> bool" where
  "struct_elems i =
     (case i of
        None \<Rightarrow> True
      | Some (t, v) \<Rightarrow> (case TypeElem t of None \<Rightarrow> False | Some e \<Rightarrow> Kind_of e = KStruct))"

text \<open>The calls that end \<open>SliceNewAt\<close> and \<open>SliceDelete\<close>, after the slice has been
  stored.\<close>

definition after_change :: "'a StructTableView_scheme \<Rightarrow> vevent list" where
  "after_change sv =
     (case TmpSave sv of None \<Rightarrow> [] | Some tv \<Rightarrow> [SaveTmp tv])
     @ [SetFullReRender, UpdateEnd, ViewSig_Emit]"

definition SliceNewAt ::
  "(nat \<Rightarrow> nat \<Rightarrow> nat) \<Rightarrow> 'a StructTableView_scheme \<Rightarrow> heap \<Rightarrow> int
     \<Rightarrow> (heap \<times> vevent list) option"
where
  "SliceNewAt growcap sv h idx =
     do {
       let svl = ValueOf (Slice sv);
       let svnp = NonPtrValue h svl;
       svtyp \<leftarrow> rType svnp;
       et \<leftarrow> TypeElem svtyp;
       let nval = zero_val et;
       sz \<leftarrow> rLen svnp;
       svnp1 \<leftarrow> Append growcap svnp nval;
       svnp2 \<leftarrow>
         (if 0 \<le> idx \<and> idx < int sz - 1
          then do {
            dst \<leftarrow> rSlice svnp1 (idx + 1) (int sz + 1);
            src \<leftarrow> rSlice svnp1 idx (int sz);
            rIndexSet (rCopy svnp1 dst src) idx nval
          }
          else Some svnp1);
       h' \<leftarrow> ElemSet h svl svnp2;
       Some (h', [UpdateStart] @ after_change sv)
     }"

definition SliceDelete ::
  "'a StructTableView_scheme \<Rightarrow> heap \<Rightarrow> int \<Rightarrow> (heap \<times> vevent list) option"
where
  "SliceDelete sv h idx =
     do {
       let svl = ValueOf (Slice sv);
       let svnp = NonPtrValue h svl;
       svtyp \<leftarrow> rType svnp;
       et \<leftarrow> TypeElem svtyp;
       let nval = zero_val et;
       sz \<leftarrow> rLen svnp;
       dst \<leftarrow> rSlice svnp idx (int sz - 1);
       src \<leftarrow> rSlice svnp (idx + 1) (int sz);
       svnp1 \<leftarrow> rIndexSet (rCopy svnp dst src) (int sz - 1) nval;
       w \<leftarrow> rSlice svnp1 0 (int sz - 1);
       h' \<leftarrow> ElemSet h svl (window_value svnp1 w);
       Some (h', [UpdateStart] @ after_change sv)
     }"

section \<open>Example inputs\<close>

text \<open>
  A font directory with one good and one broken TrueType file, a reader that returns the
  path as the file content, and a parser that refuses the broken file.  The library
  \<open>fl_fresh\<close> has its path set and nothing scanned yet; \<open>fl_scanned\<close> is the library
  after the scan.
\<close>

definition X_demo :: extern where
  "X_demo =
     \<lparr>Walk = (\<lambda>root. if root = ''/fonts''
                       then [Visit ''/fonts'', Visit ''/fonts/arial.ttf'',
                             Visit ''/fonts/broken.ttf'']
                       else [VisitErr root]),
      ReadFile = (\<lambda>path. Inr path),
      sfnt_Parse = (\<lambda>bytes. Inl ''sfnt: not supported''),
      opentype_NewFace = (\<lambda>f points. Inl ''opentype: not supported''),
      truetype_Parse = (\<lambda>bytes. if bytes = ''/fonts/broken.ttf''
                                then Inl ''truetype: bad file'' else Inr (length bytes)),
      truetype_NewFace = (\<lambda>f points. f + 100)\<rparr>"

definition fl_fresh :: FontLib where
  "fl_fresh = \<lparr>FontPaths = Some [''/fonts''], FontsAvail = [], Faces = []\<rparr>"

definition fl_scanned :: FontLib where
  "fl_scanned =
     \<lparr>FontPaths = Some [''/fonts''],
      FontsAvail = [(''arial'', ''/fonts/arial.ttf''), (''broken'', ''/fonts/broken.ttf'')],
      Faces = []\<rparr>"

text \<open>
  Faces whose glyph \<open>x\<close> has a bounding box and whose glyph \<open>0\<close> has none, a unit
  context that is its resolution in dots per inch, and a style with the zero size and
  a face.  The library \<open>lib_oblique\<close> knows Arial and its oblique variants.
\<close>

definition E_demo :: "rat face_extern" where
  "E_demo =
     \<lparr>Metrics_Height = (\<lambda>face. 900),
      GlyphBounds = (\<lambda>face r. if r = CHR ''x''
                       then Some (\<lparr>MinX = 0, MinY = - 448, MaxX = 384, MaxY = 0\<rparr>, 448)
                       else None),
      FixedToFloat32 = (\<lambda>x. of_int (sint x) / 64),
      Face7x13 = 0,
      ToDots = (\<lambda>dpi v un. case un of Pt \<Rightarrow> v * dpi / 72 | Px \<Rightarrow> v),
      SetFont = (\<lambda>dpi em ex ch rem. dpi)\<rparr>"

definition fs_zero :: FontStyle where
  "fs_zero =
     \<lparr>Size = \<lparr>Val = 0, Un' = Px, Dots = 0\<rparr>, Family = [], Style = FontNormal,
      Weight = WeightNormal, Face = Some 116, Height = 0, Em = 0, Ex' = 0, Ch = 0, Rem = 0,
      FaceName = []\<rparr>"

definition lib_oblique :: FontLib where
  "lib_oblique =
     \<lparr>FontPaths = Some [''/fonts''],
      FontsAvail = [(''arial'', ''/fonts/arial.ttf''),
                    (''arial oblique'', ''/fonts/Arial-Oblique.ttf''),
                    (''arial bold oblique'', ''/fonts/Arial-BoldOblique.ttf'')],
      Faces = []\<rparr>"

definition fs_broken :: FontStyle where
  "fs_broken = fs_zero\<lparr>Family := ''broken'', Face := None\<rparr>"

text \<open>
  A style of size 0 and family Arial that holds a face, one of family \<open>broken\<close> that
  holds a face, and the library after the face of Arial is loaded at the size 12, after
  the broken file is struck off, and after both.
\<close>

definition fs_arial :: FontStyle where
  "fs_arial = fs_zero\<lparr>Family := ''Arial''\<rparr>"

definition fs_kept :: FontStyle where
  "fs_kept = fs_zero\<lparr>Family := ''broken''\<rparr>"

definition fl_arial12 :: FontLib where
  "fl_arial12 = fl_scanned\<lparr>Faces := [(''arial'', [(12, 116)])]\<rparr>"

definition fl_unbroken :: FontLib where
  "fl_unbroken = fl_scanned\<lparr>FontsAvail := [(''arial'', ''/fonts/arial.ttf'')]\<rparr>"

definition fl_unbroken12 :: FontLib where
  "fl_unbroken12 = fl_unbroken\<lparr>Faces := [(''arial'', [(12, 116)])]\<rparr>"

text \<open>
  A struct type with two fields and three of its records; a heap whose cell 1 holds a
  slice of two records with no spare capacity, and whose cell 2 holds one of three
  records, the last slot spare; views that hold a pointer to each, and a view that
  holds nothing.  The capacity doubles when a
  slice grows.
\<close>

definition T_item :: gotype where
  "T_item = TStruct ''Item'' [TInt, TString]"

definition r0 :: goval where "r0 = VStruct [VInt 10, VString ''a'']"
definition r1 :: goval where "r1 = VStruct [VInt 11, VString ''b'']"
definition r2 :: goval where "r2 = VStruct [VInt 12, VString ''c'']"

definition h_demo :: heap where
  "h_demo = [1 \<mapsto> VSlice [r0, r1] 2, 2 \<mapsto> VSlice [r0, r1, r2, r2] 3]"

definition sv_ptr :: StructTableView where
  "sv_ptr = \<lparr>Slice = Some (TPtr (TSlice T_item), VPtr 1), Title = [], Values = [],
            TmpSave = Some (ExternalView 7)\<rparr>"

definition sv_ptr2 :: StructTableView where
  "sv_ptr2 = \<lparr>Slice = Some (TPtr (TSlice T_item), VPtr 2), Title = [], Values = [],
             TmpSave = Some (ExternalView 7)\<rparr>"

definition sv_new :: StructTableView where
  "sv_new = \<lparr>Slice = None, Title = [], Values = [], TmpSave = None\<rparr>"

definition double_cap :: "nat \<Rightarrow> nat \<Rightarrow> nat" where
  "double_cap c needed = 2 * c"

text \<open>
  A first build of the widget tree, where both layouts are found and every call of
  \<open>ConfigChildren\<close> changes the children; a later one, where nothing changes; and the
  view that \<open>SetSlice\<close> builds from the empty view and the slice \<open>[r0, r1]\<close>.
\<close>

definition W_first :: widgets where
  "W_first = \<lparr>StdConfig_mods = True, SliceGrid_present = True, SliceGrid_mods = True,
              ButtonBox_present = True, ButtonBox_mods = True\<rparr>"

definition W_later :: widgets where
  "W_later = \<lparr>StdConfig_mods = False, SliceGrid_present = True, SliceGrid_mods = False,
              ButtonBox_present = True, ButtonBox_mods = False\<rparr>"

definition sv_shown :: StructTableView where
  "sv_shown =
     \<lparr>Slice = Some (TSlice T_item, VSlice [r0, r1] 2), Title = [],
      Values = [[Some (CellView 0 0), Some (CellView 0 1)],
                [Some (CellView 1 0), Some (CellView 1 1)]],
      TmpSave = Some (ExternalView 3)\<rparr>"

section \<open>Properties of the font library\<close>

subsection \<open>What \<open>Init\<close> keeps\<close>

lemma Init_FontPaths: "Init X fl = (fl', ev) \<Longrightarrow> FontPaths fl' \<noteq> None"
  by (auto simp: Init_def UpdateFontsAvail_def Let_def split: if_splits prod.splits)

lemma Init_Faces: "FontPaths fl \<noteq> None \<Longrightarrow> Init X fl = (fl', ev) \<Longrightarrow> Faces fl' = Faces fl"
  by (auto simp: Init_def UpdateFontsAvail_def Let_def split: if_splits prod.splits)

lemma Init_idle: "FontPaths fl \<noteq> None \<Longrightarrow> FontsAvail fl \<noteq> [] \<Longrightarrow> Init X fl = (fl, [])"
  by (auto simp: Init_def)

lemma decode_calls_append: "decode_calls (a @ b) = decode_calls a @ decode_calls b"
  by (simp add: decode_calls_def)

lemma decode_calls_FontsAvailFromPath:
  "FontsAvailFromPath X av p = (av', ev) \<Longrightarrow> decode_calls ev = []"
  by (auto simp: FontsAvailFromPath_def decode_calls_def split: prod.splits option.splits)

lemma decode_calls_scan: "scan_paths X av ps = (av', ev) \<Longrightarrow> decode_calls ev = []"
proof (induction ps arbitrary: av av' ev)
  case Nil
  then show ?case by (simp add: decode_calls_def)
next
  case (Cons p ps)
  then show ?case
    by (auto simp: decode_calls_append split: prod.splits dest: decode_calls_FontsAvailFromPath)
qed

lemma decode_calls_Init: "Init X fl = (fl', ev) \<Longrightarrow> decode_calls ev = []"
  by (auto simp: Init_def UpdateFontsAvail_def Let_def decode_calls_def
      split: if_splits prod.splits dest: decode_calls_scan)

subsection \<open>The face cache\<close>

lemma cached_store: "cached_face (store_face fl nm pts face) nm pts = Some face"
  by (simp add: cached_face_def store_face_def Let_def update_conv')

lemma store_face_sel [simp]:
  "FontPaths (store_face fl nm pts face) = FontPaths fl"
  "FontsAvail (store_face fl nm pts face) = FontsAvail fl"
  by (simp_all add: store_face_def Let_def)

lemma Font_caches:
  assumes "Font X fl nm pts = (Inr face, fl1, ev1)"
  shows "FontPaths fl1 \<noteq> None \<and> cached_face fl1 (ToLower nm) pts = Some face"
proof -
  obtain fla eva where I: "Init X fl = (fla, eva)" by (cases "Init X fl")
  have P: "FontPaths fla \<noteq> None" using I by (rule Init_FontPaths)
  show ?thesis
  proof (cases "cached_face fla (ToLower nm) pts")
    case (Some f)
    with assms I P show ?thesis by (simp add: Font_def)
  next
    case None
    with assms I P show ?thesis
      by (auto simp: Font_def Let_def cached_store split: if_splits sum.splits)
  qed
qed

lemma Font_demo_first:
  "Font X_demo fl_fresh ''Arial'' 12 =
     (Inr 116,
      \<lparr>FontPaths = Some [''/fonts''],
         FontsAvail = [(''arial'', ''/fonts/arial.ttf''), (''broken'', ''/fonts/broken.ttf'')],
         Faces = [(''arial'', [(12, 116)])]\<rparr>,
      [Print_updating [''/fonts''], Call_LoadFontFace ''/fonts/arial.ttf'' 12])"
  by code_simp

text \<open>
  Claim C5.  When a call \<open>Font(name, points)\<close> has returned a face, a second call with
  the same size and a name that differs at most in letter case returns the same face
  handle; it is the one stored in \<open>Faces\<close>, the call leaves \<open>Faces\<close> as it is, and
  the decoder \<open>LoadFontFace\<close> is not called again.  This holds whatever the files are
  at the time of the second call (\<open>X'\<close>).
\<close>

theorem Font_second_call_cached:
  assumes "Font X fl nm pts = (Inr face, fl1, ev1)" and "ToLower nm' = ToLower nm"
  shows "\<exists>fl2 ev2. Font X' fl1 nm' pts = (Inr face, fl2, ev2)
            \<and> cached_face fl1 (ToLower nm') pts = Some face
            \<and> Faces fl2 = Faces fl1 \<and> decode_calls ev2 = []"
proof -
  from assms(1) have P: "FontPaths fl1 \<noteq> None"
    and C: "cached_face fl1 (ToLower nm) pts = Some face"
    using Font_caches by blast+
  obtain fl2 ev2 where I: "Init X' fl1 = (fl2, ev2)" by (cases "Init X' fl1")
  have F: "Faces fl2 = Faces fl1" using P I by (rule Init_Faces)
  then have "cached_face fl2 (ToLower nm) pts = Some face"
    using C by (simp add: cached_face_def)
  then have "Font X' fl1 nm' pts = (Inr face, fl2, ev2)"
    using I assms(2) by (simp add: Font_def)
  moreover have "decode_calls ev2 = []" using I by (rule decode_calls_Init)
  ultimately show ?thesis using F C assms(2) by auto
qed

theorem Font_second_call_cached_witness:
  "\<exists>fl1 ev1 fl2 ev2.
     Font X_demo fl_fresh ''Arial'' 12 = (Inr 116, fl1, ev1)
     \<and> ToLower ''ARIAL'' = ToLower ''Arial''
     \<and> Font X_demo fl1 ''ARIAL'' 12 = (Inr 116, fl2, ev2)
     \<and> cached_face fl1 (ToLower ''ARIAL'') 12 = Some 116
     \<and> Faces fl2 = Faces fl1 \<and> decode_calls ev2 = []"
proof -
  have L: "ToLower ''ARIAL'' = ToLower ''Arial''" by code_simp
  from Font_second_call_cached [OF Font_demo_first L, of X_demo] Font_demo_first L
  show ?thesis by blast
qed

subsection \<open>Unknown names and files that do not decode\<close>

lemma map_get_delete: "map_get (AList.delete k al) k = []"
  by (simp add: map_get_def delete_conv')

text \<open>
  Claim C4, as stated, fails: a name that is not in \<open>FontsAvail\<close> is still found when
  \<open>FontsAvail\<close> is empty and the font paths are set, because \<open>Init\<close> then scans the
  paths again before the lookup.  On \<open>fl_fresh\<close> the call \<open>Font("Arial", 12)\<close> returns a
  face and fills \<open>FontsAvail\<close>.
\<close>

theorem Font_unknown_name_counterexample:
  "map_of (FontsAvail fl_fresh) (ToLower ''Arial'') = None \<and>
   Font X_demo fl_fresh ''Arial'' 12 =
     (Inr 116,
      \<lparr>FontPaths = Some [''/fonts''],
         FontsAvail = [(''arial'', ''/fonts/arial.ttf''), (''broken'', ''/fonts/broken.ttf'')],
         Faces = [(''arial'', [(12, 116)])]\<rparr>,
      [Print_updating [''/fonts''], Call_LoadFontFace ''/fonts/arial.ttf'' 12])"
  by code_simp

text \<open>A face cached earlier is returned as well, whether or not its name is still in
  \<open>FontsAvail\<close>: the cache is read first.\<close>

lemma Font_cache_first:
  assumes "FontPaths fl \<noteq> None" and "FontsAvail fl \<noteq> []"
    and "cached_face fl (ToLower nm) points = Some face"
  shows "Font X fl nm points = (Inr face, fl, [])"
  using assms by (simp add: Font_def Init_idle)

text \<open>
  Claim C4, amended.  Take a library whose font paths are set and whose \<open>FontsAvail\<close>
  is not empty (so that \<open>Init\<close> does not scan), and a name and size with no cached face.
  If the lower-cased name has no path in \<open>FontsAvail\<close>, \<open>Font\<close> returns the NotFound
  error, which carries the lower-cased name and the font paths, and leaves the library
  as it is.  If it has a path and \<open>LoadFontFace\<close> fails on it, \<open>Font\<close> returns that error
  as a LoadError and removes the name from \<open>FontsAvail\<close>, changing nothing else; the
  name is then absent, and the same call repeated returns NotFound as long as
  \<open>FontsAvail\<close> is still not empty.
\<close>

theorem Font_error_results:
  assumes "FontPaths fl \<noteq> None" and "FontsAvail fl \<noteq> []"
    and "cached_face fl (ToLower nm) points = None"
  shows "(map_get (FontsAvail fl) (ToLower nm) = [] \<longrightarrow>
            Font X fl nm points = (Inl (NotFound (ToLower nm) (paths_of fl)), fl, []))
       \<and> (\<forall>err. map_get (FontsAvail fl) (ToLower nm) \<noteq> [] \<and>
              LoadFontFace X (map_get (FontsAvail fl) (ToLower nm)) points = Inl err \<longrightarrow>
            Font X fl nm points =
              (Inl (LoadError err),
               fl\<lparr>FontsAvail := AList.delete (ToLower nm) (FontsAvail fl)\<rparr>,
               [Call_LoadFontFace (map_get (FontsAvail fl) (ToLower nm)) points,
                Log_error_loading (ToLower nm)])
            \<and> map_of (AList.delete (ToLower nm) (FontsAvail fl)) (ToLower nm) = None
            \<and> (AList.delete (ToLower nm) (FontsAvail fl) \<noteq> [] \<longrightarrow>
                 Font X (fl\<lparr>FontsAvail := AList.delete (ToLower nm) (FontsAvail fl)\<rparr>) nm points =
                   (Inl (NotFound (ToLower nm) (paths_of fl)),
                    fl\<lparr>FontsAvail := AList.delete (ToLower nm) (FontsAvail fl)\<rparr>, [])))"
proof -
  have I: "Init X fl = (fl, [])" using assms(1,2) by (rule Init_idle)
  have absent: "map_get (FontsAvail fl) (ToLower nm) = [] \<Longrightarrow>
            Font X fl nm points = (Inl (NotFound (ToLower nm) (paths_of fl)), fl, [])"
    using I assms(3) by (simp add: Font_def)
  have broken: "Font X fl nm points =
              (Inl (LoadError err),
               fl\<lparr>FontsAvail := AList.delete (ToLower nm) (FontsAvail fl)\<rparr>,
               [Call_LoadFontFace (map_get (FontsAvail fl) (ToLower nm)) points,
                Log_error_loading (ToLower nm)])"
    if "map_get (FontsAvail fl) (ToLower nm) \<noteq> []"
      and "LoadFontFace X (map_get (FontsAvail fl) (ToLower nm)) points = Inl err" for err
    using I assms(3) that by (simp add: Font_def Let_def)
  let ?fl' = "fl\<lparr>FontsAvail := AList.delete (ToLower nm) (FontsAvail fl)\<rparr>"
  have again: "Font X ?fl' nm points = (Inl (NotFound (ToLower nm) (paths_of fl)), ?fl', [])"
    if "AList.delete (ToLower nm) (FontsAvail fl) \<noteq> []"
  proof -
    have "Init X ?fl' = (?fl', [])" using assms(1) that by (simp add: Init_idle)
    moreover have "cached_face ?fl' (ToLower nm) points = None"
      using assms(3) by (simp add: cached_face_def)
    ultimately show ?thesis
      by (simp add: Font_def Let_def map_get_delete paths_of_def)
  qed
  show ?thesis using absent broken again by (simp add: delete_conv')
qed

theorem Font_error_results_witness:
  "Font X_demo fl_scanned ''Comic Sans'' 12 =
       (Inl (NotFound ''comic sans'' [''/fonts'']), fl_scanned, [])
   \<and> Font X_demo fl_scanned ''Broken'' 12 =
       (Inl (LoadError ''truetype: bad file''),
        fl_scanned\<lparr>FontsAvail := [(''arial'', ''/fonts/arial.ttf'')]\<rparr>,
        [Call_LoadFontFace ''/fonts/broken.ttf'' 12, Log_error_loading ''broken''])
   \<and> Font X_demo (fl_scanned\<lparr>FontsAvail := [(''arial'', ''/fonts/arial.ttf'')]\<rparr>) ''Broken'' 12 =
       (Inl (NotFound ''broken'' [''/fonts'']),
        fl_scanned\<lparr>FontsAvail := [(''arial'', ''/fonts/arial.ttf'')]\<rparr>, [])"
proof -
  have h1: "FontPaths fl_scanned \<noteq> None" by (simp add: fl_scanned_def)
  have h2: "FontsAvail fl_scanned \<noteq> []" by (simp add: fl_scanned_def)
  have c1: "cached_face fl_scanned (ToLower ''Comic Sans'') 12 = None"
    by (simp add: cached_face_def fl_scanned_def)
  have c2: "cached_face fl_scanned (ToLower ''Broken'') 12 = None"
    by (simp add: cached_face_def fl_scanned_def)
  have l1: "ToLower ''Comic Sans'' = ''comic sans''" by code_simp
  have l2: "ToLower ''Broken'' = ''broken''" by code_simp
  have a1: "map_get (FontsAvail fl_scanned) ''comic sans'' = []" by code_simp
  have a2: "map_get (FontsAvail fl_scanned) ''broken'' = ''/fonts/broken.ttf''" by code_simp
  have ld: "LoadFontFace X_demo ''/fonts/broken.ttf'' 12 = Inl ''truetype: bad file''"
    by code_simp
  have d: "AList.delete ''broken'' (FontsAvail fl_scanned) = [(''arial'', ''/fonts/arial.ttf'')]"
    by code_simp
  have p: "paths_of fl_scanned = [''/fonts'']" by (simp add: paths_of_def fl_scanned_def)
  from Font_error_results [OF h1 h2 c1, of X_demo] a1 l1 p
  have r1: "Font X_demo fl_scanned ''Comic Sans'' 12 =
              (Inl (NotFound ''comic sans'' [''/fonts'']), fl_scanned, [])"
    by simp
  from Font_error_results [OF h1 h2 c2, of X_demo] a2 l2 ld d p
  have r2: "Font X_demo fl_scanned ''Broken'' 12 =
       (Inl (LoadError ''truetype: bad file''),
        fl_scanned\<lparr>FontsAvail := [(''arial'', ''/fonts/arial.ttf'')]\<rparr>,
        [Call_LoadFontFace ''/fonts/broken.ttf'' 12, Log_error_loading ''broken''])
     \<and> Font X_demo (fl_scanned\<lparr>FontsAvail := [(''arial'', ''/fonts/arial.ttf'')]\<rparr>) ''Broken'' 12 =
       (Inl (NotFound ''broken'' [''/fonts'']),
        fl_scanned\<lparr>FontsAvail := [(''arial'', ''/fonts/arial.ttf'')]\<rparr>, [])"
    by simp
  from r1 r2 show ?thesis by simp
qed

subsection \<open>\<open>FontAvail\<close> and its receiver\<close>

text \<open>
  Claim C9.  For every receiver \<open>fl\<close> and every name, \<open>fl.FontAvail(name)\<close> is the
  membership of the lower-cased name among the keys of the \<open>FontsAvail\<close> map of the
  package variable \<open>FontLibrary\<close>; whatever the receiver's own \<open>FontsAvail\<close> holds
  makes no difference.
\<close>

theorem FontAvail_reads_FontLibrary:
  "FontAvail FontLibrary fl n = (ToLower n \<in> fst ` set (FontsAvail FontLibrary))
   \<and> FontAvail FontLibrary (fl\<lparr>FontsAvail := avail\<rparr>) n = FontAvail FontLibrary fl n"
  by (simp add: FontAvail_def map_of_eq_None_iff)

text \<open>For instance, a receiver that has scanned Arial is told that Arial is not
  available when the package library has not scanned yet, and the other way round.\<close>

lemma FontAvail_receiver_example:
  "FontAvail fl_fresh fl_scanned ''Arial'' = False
   \<and> FontAvail fl_scanned fl_fresh ''Arial'' = True"
  by code_simp

section \<open>Properties of font styles\<close>

subsection \<open>\<open>ComputeMetrics\<close>\<close>

lemma ComputeMetrics_Face [simp]: "Face (ComputeMetrics E fs ctxt) = Face fs"
  by (simp add: ComputeMetrics_def Let_def split: option.splits prod.splits)

lemma ComputeMetrics_Size [simp]: "Size (ComputeMetrics E fs ctxt) = Size fs"
  by (simp add: ComputeMetrics_def Let_def split: option.splits prod.splits)

lemma ComputeMetrics_Em:
  "Face fs \<noteq> None \<Longrightarrow>
   Em (ComputeMetrics E fs ctxt) =
     (if Round (Dots (Size fs)) = 0 then 12 else Round (Dots (Size fs)))"
  by (auto simp: ComputeMetrics_def Let_def split: option.splits prod.splits)

text \<open>
  Claim C7, as stated, fails where the size rounds to zero: \<open>Em\<close> is then set to 12 and
  not to the rounded size.  For the style \<open>fs_zero\<close>, of size 0 with a face whose glyph
  \<open>0\<close> has no bounding box, \<open>Em\<close> becomes 12 and \<open>Ch\<close> becomes 6.
\<close>

theorem ComputeMetrics_Em_counterexample:
  "Face fs_zero = Some 116 \<and> Round (Dots (Size fs_zero)) = 0
   \<and> Em (ComputeMetrics E_demo fs_zero 96) = 12
   \<and> Em (ComputeMetrics E_demo fs_zero 96) \<noteq> Round (Dots (Size fs_zero))
   \<and> Ch (ComputeMetrics E_demo fs_zero 96) = 6"
  by code_simp

text \<open>
  Claim C7, amended.  With no face, \<open>ComputeMetrics\<close> returns the style as it is.
  With a face, \<open>Em\<close> becomes the size in dots rounded to an integer, or 12 when that
  is 0; \<open>Ex\<close> becomes the height of the bounding box of the glyph \<open>x\<close>
  (\<open>Max.Y - Min.Y\<close>, converted by \<open>FixedToFloat32\<close>), or half of \<open>Em\<close> when the face
  has no such glyph; \<open>Ch\<close> becomes the width of the bounding box of the glyph \<open>0\<close>,
  or half of \<open>Em\<close>; \<open>Rem\<close> becomes what \<open>ToDots\<close> of the context gives for 12 points.
\<close>

theorem ComputeMetrics_fields:
  "(Face fs = None \<longrightarrow> ComputeMetrics E fs ctxt = fs) \<and>
   (\<forall>face. Face fs = Some face \<longrightarrow>
      (let fs' = ComputeMetrics E fs ctxt
       in Em fs' = (if Round (Dots (Size fs)) = 0 then 12 else Round (Dots (Size fs)))
          \<and> Ex' fs' = (case GlyphBounds E face (CHR ''x'') of
                         Some (xb, adv) \<Rightarrow> FixedToFloat32 E (MaxY xb - MinY xb)
                       | None \<Rightarrow> (1 / 2) * Em fs')
          \<and> Ch fs' = (case GlyphBounds E face (CHR ''0'') of
                        Some (xb, adv) \<Rightarrow> FixedToFloat32 E (MaxX xb - MinX xb)
                      | None \<Rightarrow> (1 / 2) * Em fs')
          \<and> Rem fs' = ToDots E ctxt 12 Pt))"
  by (auto simp: ComputeMetrics_def Let_def split: option.splits prod.splits)

theorem ComputeMetrics_fields_witness:
  "ComputeMetrics E_demo (fs_zero\<lparr>Face := None\<rparr>) 96 = fs_zero\<lparr>Face := None\<rparr>
   \<and> Em (ComputeMetrics E_demo (fs_zero\<lparr>Size := \<lparr>Val = 10, Un' = Px, Dots = 21 / 2\<rparr>\<rparr>) 96) = 11
   \<and> Ex' (ComputeMetrics E_demo (fs_zero\<lparr>Size := \<lparr>Val = 10, Un' = Px, Dots = 21 / 2\<rparr>\<rparr>) 96) = 7
   \<and> Ch (ComputeMetrics E_demo (fs_zero\<lparr>Size := \<lparr>Val = 10, Un' = Px, Dots = 21 / 2\<rparr>\<rparr>) 96) = 11 / 2
   \<and> Rem (ComputeMetrics E_demo (fs_zero\<lparr>Size := \<lparr>Val = 10, Un' = Px, Dots = 21 / 2\<rparr>\<rparr>) 96) = 16"
proof -
  let ?fs = "fs_zero\<lparr>Size := \<lparr>Val = 10, Un' = Px, Dots = 21 / 2\<rparr>\<rparr>"
  have n: "Face (fs_zero\<lparr>Face := None\<rparr>) = None" by simp
  have f: "Face ?fs = Some 116" by (simp add: fs_zero_def)
  have r: "Round (Dots (Size ?fs)) = 11" by code_simp
  have gx: "GlyphBounds E_demo 116 (CHR ''x'') =
              Some (\<lparr>MinX = 0, MinY = - 448, MaxX = 384, MaxY = 0\<rparr>, 448)"
    by (simp add: E_demo_def)
  have g0: "GlyphBounds E_demo 116 (CHR ''0'') = None" by (simp add: E_demo_def)
  have fx: "FixedToFloat32 E_demo (0 - (- 448)) = 7" by code_simp
  have td: "ToDots E_demo 96 12 Pt = 16" by (simp add: E_demo_def)
  from ComputeMetrics_fields [of "fs_zero\<lparr>Face := None\<rparr>" E_demo 96] n
  have 1: "ComputeMetrics E_demo (fs_zero\<lparr>Face := None\<rparr>) 96 = fs_zero\<lparr>Face := None\<rparr>"
    by blast
  from ComputeMetrics_fields [of ?fs E_demo 96] f
  have 2: "let fs' = ComputeMetrics E_demo ?fs 96
       in Em fs' = (if Round (Dots (Size ?fs)) = 0 then 12 else Round (Dots (Size ?fs)))
          \<and> Ex' fs' = (case GlyphBounds E_demo 116 (CHR ''x'') of
                         Some (xb, adv) \<Rightarrow> FixedToFloat32 E_demo (MaxY xb - MinY xb)
                       | None \<Rightarrow> (1 / 2) * Em fs')
          \<and> Ch fs' = (case GlyphBounds E_demo 116 (CHR ''0'') of
                        Some (xb, adv) \<Rightarrow> FixedToFloat32 E_demo (MaxX xb - MinX xb)
                      | None \<Rightarrow> (1 / 2) * Em fs')
          \<and> Rem fs' = ToDots E_demo 96 12 Pt"
    by blast
  from 2 have 3: "Em (ComputeMetrics E_demo ?fs 96) = 11
      \<and> Ex' (ComputeMetrics E_demo ?fs 96) = 7
      \<and> Ch (ComputeMetrics E_demo ?fs 96) = 11 / 2
      \<and> Rem (ComputeMetrics E_demo ?fs 96) = 16"
    unfolding Let_def r gx g0 td using fx by simp
  from 1 3 show ?thesis by blast
qed

subsection \<open>\<open>LoadFont\<close> on a size that rounds to zero\<close>

lemma font_requests_append: "font_requests (a @ b) = font_requests a @ font_requests b"
  by (induction a rule: font_requests.induct) simp_all

lemma font_requests_Lib [simp]: "font_requests (map Lib ev) = []"
  by (induction ev) simp_all

lemma LoadFont_zero_loaded:
  assumes "FaceNm p lib fs = (fnm, ev0)" and "Round (Dots (Size fs)) = 0"
    and "Font X lib fnm 12 = (Inr face, lib1, ev1)"
  shows "LoadFont E X p lib fs ctxt fallback =
     (let fs3 = ComputeMetrics E (fs\<lparr>FaceName := fnm, Face := Some face\<rparr>) ctxt
      in (lib1, fs3, SetUnitContext E fs3 ctxt,
          map Lib ev0 @ [Call_Font fnm 12] @ map Lib ev1))"
  by (subst LoadFont.simps) (simp add: assms Let_def)

lemma LoadFont_zero_kept:
  assumes "FaceNm p lib fs = (fnm, ev0)" and "Round (Dots (Size fs)) = 0"
    and "Font X lib fnm 12 = (Inl err, lib1, ev1)" and "Face fs \<noteq> None"
  shows "LoadFont E X p lib fs ctxt fallback =
     (let fs3 = ComputeMetrics E (fs\<lparr>FaceName := fnm\<rparr>) ctxt
      in (lib1, fs3, SetUnitContext E fs3 ctxt,
          map Lib ev0 @ [Call_Font fnm 12] @ map Lib ev1 @ [Lib (Log_error err)]))"
  by (subst LoadFont.simps) (simp add: assms Let_def)

lemma LoadFont_zero_builtin:
  assumes "FaceNm p lib fs = (fnm, ev0)" and "Round (Dots (Size fs)) = 0"
    and "Font X lib fnm 12 = (Inl err, lib1, ev1)" and "Face fs = None"
  shows "LoadFont E X p lib fs ctxt [] =
     (let fs3 = ComputeMetrics E (fs\<lparr>FaceName := fnm, Face := Some (Face7x13 E)\<rparr>) ctxt
      in (lib1, fs3, SetUnitContext E fs3 ctxt,
          map Lib ev0 @ [Call_Font fnm 12] @ map Lib ev1 @ [Lib (Log_error err)]))"
  by (subst LoadFont.simps) (simp add: assms Let_def)

lemma LoadFont_zero_again:
  assumes "FaceNm p lib fs = (fnm, ev0)" and "Round (Dots (Size fs)) = 0"
    and "Font X lib fnm 12 = (Inl err, lib1, ev1)" and "Face fs = None"
    and "fallback \<noteq> []"
    and "LoadFont E X p lib1 (fs\<lparr>FaceName := fallback\<rparr>) ctxt [] = (lib', fs', ctxt', ev')"
  shows "LoadFont E X p lib fs ctxt fallback =
     (let fs3 = ComputeMetrics E fs' ctxt'
      in (lib', fs3, SetUnitContext E fs3 ctxt',
          map Lib ev0 @ [Call_Font fnm 12] @ map Lib ev1 @ [Lib (Log_error err)] @ ev'))"
  by (subst LoadFont.simps) (simp add: assms Let_def)

text \<open>With no fallback there is one request, and a face is held afterwards.\<close>

lemma LoadFont_zero_no_fallback:
  assumes R: "Round (Dots (Size fs)) = 0"
    and L: "LoadFont E X p lib fs ctxt [] = (lib', fs', ctxt', ev)"
  shows "font_requests ev = [(fst (FaceNm p lib fs), 12)] \<and> Em fs' = 12
         \<and> Face fs' \<noteq> None \<and> Size fs' = Size fs"
proof -
  obtain fnm ev0 where N: "FaceNm p lib fs = (fnm, ev0)" by (cases "FaceNm p lib fs")
  obtain res lib1 ev1 where F: "Font X lib fnm 12 = (res, lib1, ev1)"
    by (cases "Font X lib fnm 12")
  show ?thesis
  proof (cases res)
    case (Inr face)
    from L LoadFont_zero_loaded [OF N R F [unfolded Inr], of E ctxt "[]"] N R
    show ?thesis
      by (auto simp: Let_def font_requests_append ComputeMetrics_Em)
  next
    case (Inl err)
    show ?thesis
    proof (cases "Face fs")
      case None
      from L LoadFont_zero_builtin [OF N R F [unfolded Inl] None, of E ctxt] N R
      show ?thesis
        by (auto simp: Let_def font_requests_append ComputeMetrics_Em)
    next
      case (Some f)
      then have "Face fs \<noteq> None" by simp
      from L LoadFont_zero_kept [OF N R F [unfolded Inl] this, of E ctxt "[]"] N R Some
      show ?thesis
        by (auto simp: Let_def font_requests_append ComputeMetrics_Em)
    qed
  qed
qed

lemma LoadFont_zero_requests:
  assumes R: "Round (Dots (Size fs)) = 0"
    and L: "LoadFont E X p lib fs ctxt fallback = (lib', fs', ctxt', ev)"
  shows "font_requests ev \<noteq> [] \<and> snd ` set (font_requests ev) = {12} \<and> Em fs' = 12"
proof (cases "fallback = []")
  case True
  with LoadFont_zero_no_fallback [OF R] L show ?thesis by fastforce
next
  case fb: False
  obtain fnm ev0 where N: "FaceNm p lib fs = (fnm, ev0)" by (cases "FaceNm p lib fs")
  obtain res lib1 ev1 where F: "Font X lib fnm 12 = (res, lib1, ev1)"
    by (cases "Font X lib fnm 12")
  show ?thesis
  proof (cases res)
    case (Inr face)
    from L LoadFont_zero_loaded [OF N R F [unfolded Inr], of E ctxt fallback] R
    show ?thesis
      by (auto simp: Let_def font_requests_append ComputeMetrics_Em)
  next
    case (Inl err)
    show ?thesis
    proof (cases "Face fs")
      case (Some f)
      then have "Face fs \<noteq> None" by simp
      from L LoadFont_zero_kept [OF N R F [unfolded Inl] this, of E ctxt fallback] R Some
      show ?thesis
        by (auto simp: Let_def font_requests_append ComputeMetrics_Em)
    next
      case None
      let ?fs2 = "fs\<lparr>FaceName := fallback\<rparr>"
      obtain libi fsi ctxti evi where
        I: "LoadFont E X p lib1 ?fs2 ctxt [] = (libi, fsi, ctxti, evi)"
        by (cases "LoadFont E X p lib1 ?fs2 ctxt []")
      have R2: "Round (Dots (Size ?fs2)) = 0" using R by simp
      from LoadFont_zero_no_fallback [OF R2 I]
      have inner: "font_requests evi = [(fst (FaceNm p lib1 ?fs2), 12)]"
        and face: "Face fsi \<noteq> None" and size: "Size fsi = Size fs"
        by simp_all
      from L LoadFont_zero_again [OF N R F [unfolded Inl] None fb I]
      have ev: "ev = map Lib ev0 @ [Call_Font fnm 12] @ map Lib ev1 @ [Lib (Log_error err)] @ evi"
        and fs': "fs' = ComputeMetrics E fsi ctxti"
        by (simp_all add: Let_def)
      from fs' face size R have "Em fs' = 12" by (simp add: ComputeMetrics_Em)
      with ev inner show ?thesis by (simp add: font_requests_append)
    qed
  qed
qed


text \<open>With no fallback and no face held, the one request is for the size 12, and the
  library, the face and the events afterwards are those of that call of \<open>Font\<close>.\<close>

lemma LoadFont_zero_last:
  assumes N: "FaceNm p lib fs = (fnm, ev0)" and R: "Round (Dots (Size fs)) = 0"
    and F: "Font X lib fnm 12 = (res, lib1, ev1)" and A: "Face fs = None"
  shows "\<exists>fs3 c3. LoadFont E X p lib fs ctxt [] =
            (lib1, fs3, c3,
             map Lib ev0 @ [Call_Font fnm 12] @ map Lib ev1
             @ (case res of Inr face \<Rightarrow> [] | Inl err \<Rightarrow> [Lib (Log_error err)]))
          \<and> Face fs3 = (case res of Inr face \<Rightarrow> Some face | Inl err \<Rightarrow> Some (Face7x13 E))"
proof (cases res)
  case (Inr face)
  from LoadFont_zero_loaded [OF N R F [unfolded Inr], of E ctxt "[]"] Inr
  show ?thesis by (simp add: Let_def)
next
  case (Inl err)
  from LoadFont_zero_builtin [OF N R F [unfolded Inl] A, of E ctxt] Inl
  show ?thesis by (simp add: Let_def)
qed

text \<open>
  Claim C10.  Let the size in dots of a style round to 0, let \<open>fnm\<close> be the name that
  \<open>FaceNm\<close> resolves, and let \<open>(res, lib1, ev1)\<close> be what the library's \<open>Font\<close> does
  for \<open>fnm\<close> at the size 12.  Then \<open>LoadFont\<close> starts with exactly that call: its
  events begin with those of \<open>FaceNm\<close>, the request of \<open>fnm\<close> at 12 and the events of
  that call of \<open>Font\<close>.  Every request it makes is for the size 12, and the style it
  returns has \<open>Em\<close> equal to 12; \<open>ComputeMetrics\<close> alone sets \<open>Em\<close> to 12 on such a
  style whenever a face is held.  When the call succeeds, the library afterwards is
  \<open>lib1\<close>, with the face cached at the size 12, and the style holds the face returned.
  When it fails and the style holds a face or there is no fallback, the library is
  \<open>lib1\<close>, the error is logged, and the style keeps its face or gets the built-in one.
  When it fails, no face is held and there is a fallback, the second attempt is again
  a call of \<open>Font\<close> at the size 12, on \<open>lib1\<close> and for the name resolved there; the
  library afterwards is the one that call leaves, and the style holds the face it
  returns, or the built-in face when it fails too.  \<open>LoadFont\<close> is a total function, so
  it has a result on every input.
\<close>

theorem LoadFont_zero_size:
  assumes R: "Round (Dots (Size fs)) = 0"
    and N: "FaceNm p lib fs = (fnm, ev0)"
    and F: "Font X lib fnm 12 = (res, lib1, ev1)"
    and L: "LoadFont E X p lib fs ctxt fallback = (lib', fs', ctxt', ev)"
  shows "(\<exists>rest. ev = map Lib ev0 @ [Call_Font fnm 12] @ map Lib ev1 @ rest)
       \<and> font_requests ev \<noteq> [] \<and> snd ` set (font_requests ev) = {12} \<and> Em fs' = 12
       \<and> (Face fs \<noteq> None \<longrightarrow> Em (ComputeMetrics E fs ctxt) = 12)
       \<and> (\<forall>face. res = Inr face \<longrightarrow>
             lib' = lib1 \<and> Face fs' = Some face
             \<and> ev = map Lib ev0 @ [Call_Font fnm 12] @ map Lib ev1)
       \<and> (\<forall>err. res = Inl err \<and> (Face fs \<noteq> None \<or> fallback = []) \<longrightarrow>
             lib' = lib1
             \<and> Face fs' = (if Face fs = None then Some (Face7x13 E) else Face fs)
             \<and> ev = map Lib ev0 @ [Call_Font fnm 12] @ map Lib ev1 @ [Lib (Log_error err)])
       \<and> (\<forall>err fnm2 ev02 res2 lib2 ev12.
             res = Inl err \<and> Face fs = None \<and> fallback \<noteq> []
             \<and> FaceNm p lib1 (fs\<lparr>FaceName := fallback\<rparr>) = (fnm2, ev02)
             \<and> Font X lib1 fnm2 12 = (res2, lib2, ev12) \<longrightarrow>
             lib' = lib2
             \<and> Face fs' = (case res2 of Inr face \<Rightarrow> Some face | Inl err2 \<Rightarrow> Some (Face7x13 E))
             \<and> ev = map Lib ev0 @ [Call_Font fnm 12] @ map Lib ev1 @ [Lib (Log_error err)]
                    @ map Lib ev02 @ [Call_Font fnm2 12] @ map Lib ev12
                    @ (case res2 of Inr face \<Rightarrow> [] | Inl err2 \<Rightarrow> [Lib (Log_error err2)]))"
proof -
  have req: "font_requests ev \<noteq> [] \<and> snd ` set (font_requests ev) = {12} \<and> Em fs' = 12"
    by (rule LoadFont_zero_requests [OF R L])
  have cm: "Face fs \<noteq> None \<longrightarrow> Em (ComputeMetrics E fs ctxt) = 12"
    using R by (simp add: ComputeMetrics_Em)
  have loaded: "lib' = lib1 \<and> Face fs' = Some face
             \<and> ev = map Lib ev0 @ [Call_Font fnm 12] @ map Lib ev1"
    if "res = Inr face" for face
    using L LoadFont_zero_loaded [OF N R F [unfolded that], of E ctxt fallback]
    by (auto simp: Let_def)
  have kept: "lib' = lib1
             \<and> Face fs' = (if Face fs = None then Some (Face7x13 E) else Face fs)
             \<and> ev = map Lib ev0 @ [Call_Font fnm 12] @ map Lib ev1 @ [Lib (Log_error err)]"
    if res: "res = Inl err" and c: "Face fs \<noteq> None \<or> fallback = []" for err
  proof (cases "Face fs")
    case None
    with c have fb: "fallback = []" by simp
    from L [unfolded fb] LoadFont_zero_builtin [OF N R F [unfolded res] None, of E ctxt] None
    show ?thesis by (auto simp: Let_def)
  next
    case (Some f)
    then have "Face fs \<noteq> None" by simp
    from L LoadFont_zero_kept [OF N R F [unfolded res] this, of E ctxt fallback] Some
    show ?thesis by (auto simp: Let_def)
  qed
  have again: "lib' = lib2
             \<and> Face fs' = (case res2 of Inr face \<Rightarrow> Some face | Inl err2 \<Rightarrow> Some (Face7x13 E))
             \<and> ev = map Lib ev0 @ [Call_Font fnm 12] @ map Lib ev1 @ [Lib (Log_error err)]
                    @ map Lib ev02 @ [Call_Font fnm2 12] @ map Lib ev12
                    @ (case res2 of Inr face \<Rightarrow> [] | Inl err2 \<Rightarrow> [Lib (Log_error err2)])"
    if res: "res = Inl err" and A: "Face fs = None" and fb: "fallback \<noteq> []"
      and N2: "FaceNm p lib1 (fs\<lparr>FaceName := fallback\<rparr>) = (fnm2, ev02)"
      and F2: "Font X lib1 fnm2 12 = (res2, lib2, ev12)"
    for err fnm2 ev02 res2 lib2 ev12
  proof -
    let ?fs2 = "fs\<lparr>FaceName := fallback\<rparr>"
    have R2: "Round (Dots (Size ?fs2)) = 0" using R by simp
    have A2: "Face ?fs2 = None" using A by simp
    from LoadFont_zero_last [OF N2 R2 F2 A2, of E ctxt]
    obtain fsi ci where
      I: "LoadFont E X p lib1 ?fs2 ctxt [] =
            (lib2, fsi, ci,
             map Lib ev02 @ [Call_Font fnm2 12] @ map Lib ev12
             @ (case res2 of Inr face \<Rightarrow> [] | Inl err2 \<Rightarrow> [Lib (Log_error err2)]))"
      and FI: "Face fsi = (case res2 of Inr face \<Rightarrow> Some face | Inl err2 \<Rightarrow> Some (Face7x13 E))"
      by blast
    from L LoadFont_zero_again [OF N R F [unfolded res] A fb I] FI
    show ?thesis by (auto simp: Let_def)
  qed
  have start: "\<exists>rest. ev = map Lib ev0 @ [Call_Font fnm 12] @ map Lib ev1 @ rest"
  proof (cases res)
    case (Inr face)
    from loaded [OF Inr] show ?thesis by simp
  next
    case (Inl err)
    show ?thesis
    proof (cases "Face fs \<noteq> None \<or> fallback = []")
      case True
      from kept [OF Inl True] show ?thesis by simp
    next
      case False
      then have A: "Face fs = None" and fb: "fallback \<noteq> []" by simp_all
      obtain fnm2 ev02 where N2: "FaceNm p lib1 (fs\<lparr>FaceName := fallback\<rparr>) = (fnm2, ev02)"
        by (cases "FaceNm p lib1 (fs\<lparr>FaceName := fallback\<rparr>)")
      obtain res2 lib2 ev12 where F2: "Font X lib1 fnm2 12 = (res2, lib2, ev12)"
        by (cases "Font X lib1 fnm2 12")
      from again [OF Inl A fb N2 F2] show ?thesis by simp
    qed
  qed
  show ?thesis
  proof (intro conjI allI impI)
    show "\<exists>rest. ev = map Lib ev0 @ [Call_Font fnm 12] @ map Lib ev1 @ rest" by (rule start)
    show "font_requests ev \<noteq> []" "snd ` set (font_requests ev) = {12}" "Em fs' = 12"
      using req by simp_all
    show "Em (ComputeMetrics E fs ctxt) = 12" if "Face fs \<noteq> None" using cm that by simp
  next
    fix face assume "res = Inr face"
    from loaded [OF this]
    show "lib' = lib1" "Face fs' = Some face"
      "ev = map Lib ev0 @ [Call_Font fnm 12] @ map Lib ev1" by simp_all
  next
    fix err assume "res = Inl err \<and> (Face fs \<noteq> None \<or> fallback = [])"
    then have "res = Inl err" "Face fs \<noteq> None \<or> fallback = []" by simp_all
    from kept [OF this]
    show "lib' = lib1" "Face fs' = (if Face fs = None then Some (Face7x13 E) else Face fs)"
      "ev = map Lib ev0 @ [Call_Font fnm 12] @ map Lib ev1 @ [Lib (Log_error err)]"
      by simp_all
  next
    fix err fnm2 ev02 res2 lib2 ev12
    assume H: "res = Inl err \<and> Face fs = None \<and> fallback \<noteq> []
             \<and> FaceNm p lib1 (fs\<lparr>FaceName := fallback\<rparr>) = (fnm2, ev02)
             \<and> Font X lib1 fnm2 12 = (res2, lib2, ev12)"
    then have "res = Inl err" "Face fs = None" "fallback \<noteq> []"
      "FaceNm p lib1 (fs\<lparr>FaceName := fallback\<rparr>) = (fnm2, ev02)"
      "Font X lib1 fnm2 12 = (res2, lib2, ev12)" by simp_all
    from again [OF this]
    show "lib' = lib2"
      "Face fs' = (case res2 of Inr face \<Rightarrow> Some face | Inl err2 \<Rightarrow> Some (Face7x13 E))"
      "ev = map Lib ev0 @ [Call_Font fnm 12] @ map Lib ev1 @ [Lib (Log_error err)]
                    @ map Lib ev02 @ [Call_Font fnm2 12] @ map Lib ev12
                    @ (case res2 of Inr face \<Rightarrow> [] | Inl err2 \<Rightarrow> [Lib (Log_error err2)])"
      by simp_all
  qed
qed

text \<open>Three runs on a style of size 0: the first request succeeds; it fails on a
  broken file and the fallback succeeds; it fails and the face held is kept.\<close>

lemma LoadFont_demo_loaded:
  "FaceNm [] fl_scanned fs_arial = (''Arial'', [])"
  "Font X_demo fl_scanned ''Arial'' 12 =
     (Inr 116, fl_arial12, [Call_LoadFontFace ''/fonts/arial.ttf'' 12])"
  "LoadFont E_demo X_demo [] fl_scanned fs_arial 96 [] =
     (fl_arial12,
      \<lparr>Size = \<lparr>Val = 0, Un' = Px, Dots = 0\<rparr>, Family = ''Arial'', Style = FontNormal,
         Weight = WeightNormal, Face = Some 116, Height = 15, Em = 12, Ex' = 7, Ch = 6,
         Rem = 16, FaceName = ''Arial''\<rparr>,
      96,
      [Call_Font ''Arial'' 12, Lib (Call_LoadFontFace ''/fonts/arial.ttf'' 12)])"
  by code_simp+

lemma LoadFont_demo:
  "FaceNm [] fl_scanned fs_broken = (''broken'', [])"
  "Font X_demo fl_scanned ''broken'' 12 =
     (Inl (LoadError ''truetype: bad file''), fl_unbroken,
      [Call_LoadFontFace ''/fonts/broken.ttf'' 12, Log_error_loading ''broken''])"
  "FaceNm [] fl_unbroken (fs_broken\<lparr>FaceName := ''Arial''\<rparr>) = (''Arial'', [])"
  "Font X_demo fl_unbroken ''Arial'' 12 =
     (Inr 116, fl_unbroken12, [Call_LoadFontFace ''/fonts/arial.ttf'' 12])"
  "LoadFont E_demo X_demo [] fl_scanned fs_broken 96 ''Arial'' =
     (fl_unbroken12,
      \<lparr>Size = \<lparr>Val = 0, Un' = Px, Dots = 0\<rparr>, Family = ''broken'', Style = FontNormal,
         Weight = WeightNormal, Face = Some 116, Height = 15, Em = 12, Ex' = 7, Ch = 6,
         Rem = 16, FaceName = ''Arial''\<rparr>,
      96,
      [Call_Font ''broken'' 12, Lib (Call_LoadFontFace ''/fonts/broken.ttf'' 12),
       Lib (Log_error_loading ''broken''), Lib (Log_error (LoadError ''truetype: bad file'')),
       Call_Font ''Arial'' 12, Lib (Call_LoadFontFace ''/fonts/arial.ttf'' 12)])"
  by code_simp+

lemma LoadFont_demo_kept:
  "FaceNm [] fl_scanned fs_kept = (''broken'', [])"
  "LoadFont E_demo X_demo [] fl_scanned fs_kept 96 ''Arial'' =
     (fl_unbroken,
      \<lparr>Size = \<lparr>Val = 0, Un' = Px, Dots = 0\<rparr>, Family = ''broken'', Style = FontNormal,
         Weight = WeightNormal, Face = Some 116, Height = 15, Em = 12, Ex' = 7, Ch = 6,
         Rem = 16, FaceName = ''broken''\<rparr>,
      96,
      [Call_Font ''broken'' 12, Lib (Call_LoadFontFace ''/fonts/broken.ttf'' 12),
       Lib (Log_error_loading ''broken''), Lib (Log_error (LoadError ''truetype: bad file''))])"
  by code_simp+

lemma fl_demo_Faces:
  "Faces fl_arial12 = [(''arial'', [(12, 116)])]"
  "Faces fl_unbroken12 = [(''arial'', [(12, 116)])]"
  "Faces fl_unbroken = []"
  by (simp_all add: fl_arial12_def fl_unbroken12_def fl_unbroken_def fl_scanned_def)

theorem LoadFont_zero_size_witness:
  "Round (Dots (Size fs_arial)) = 0 \<and> Face fs_arial = Some 116
   \<and> Font X_demo fl_scanned ''Arial'' 12 =
       (Inr 116, fl_arial12, [Call_LoadFontFace ''/fonts/arial.ttf'' 12])
   \<and> Faces fl_arial12 = [(''arial'', [(12, 116)])]
   \<and> fst (LoadFont E_demo X_demo [] fl_scanned fs_arial 96 []) = fl_arial12
   \<and> snd (snd (snd (LoadFont E_demo X_demo [] fl_scanned fs_arial 96 [])))
       = [Call_Font ''Arial'' 12, Lib (Call_LoadFontFace ''/fonts/arial.ttf'' 12)]
   \<and> Em (fst (snd (LoadFont E_demo X_demo [] fl_scanned fs_arial 96 []))) = 12
   \<and> Em (ComputeMetrics E_demo fs_arial 96) = 12
   \<and> Round (Dots (Size fs_broken)) = 0 \<and> Face fs_broken = None
   \<and> Faces fl_unbroken12 = [(''arial'', [(12, 116)])]
   \<and> fst (LoadFont E_demo X_demo [] fl_scanned fs_broken 96 ''Arial'') = fl_unbroken12
   \<and> Face (fst (snd (LoadFont E_demo X_demo [] fl_scanned fs_broken 96 ''Arial''))) = Some 116
   \<and> snd (snd (snd (LoadFont E_demo X_demo [] fl_scanned fs_broken 96 ''Arial'')))
       = [Call_Font ''broken'' 12, Lib (Call_LoadFontFace ''/fonts/broken.ttf'' 12),
          Lib (Log_error_loading ''broken''), Lib (Log_error (LoadError ''truetype: bad file'')),
          Call_Font ''Arial'' 12, Lib (Call_LoadFontFace ''/fonts/arial.ttf'' 12)]
   \<and> Em (fst (snd (LoadFont E_demo X_demo [] fl_scanned fs_broken 96 ''Arial''))) = 12
   \<and> Round (Dots (Size fs_kept)) = 0 \<and> Face fs_kept = Some 116
   \<and> fst (LoadFont E_demo X_demo [] fl_scanned fs_kept 96 ''Arial'') = fl_unbroken
   \<and> Face (fst (snd (LoadFont E_demo X_demo [] fl_scanned fs_kept 96 ''Arial''))) = Some 116
   \<and> snd (snd (snd (LoadFont E_demo X_demo [] fl_scanned fs_kept 96 ''Arial'')))
       = [Call_Font ''broken'' 12, Lib (Call_LoadFontFace ''/fonts/broken.ttf'' 12),
          Lib (Log_error_loading ''broken''), Lib (Log_error (LoadError ''truetype: bad file''))]"
proof -
  have rA: "Round (Dots (Size fs_arial)) = 0" by code_simp
  have rB: "Round (Dots (Size fs_broken)) = 0" by code_simp
  have rK: "Round (Dots (Size fs_kept)) = 0" by code_simp
  have fA: "Face fs_arial = Some 116" by (simp add: fs_arial_def fs_zero_def)
  have fB: "Face fs_broken = None" by (simp add: fs_broken_def)
  have fK: "Face fs_kept = Some 116" by (simp add: fs_kept_def fs_zero_def)
  note A = LoadFont_zero_size [OF rA LoadFont_demo_loaded(1) LoadFont_demo_loaded(2)
      LoadFont_demo_loaded(3)]
  note B = LoadFont_zero_size [OF rB LoadFont_demo(1) LoadFont_demo(2) LoadFont_demo(5)]
  note K = LoadFont_zero_size [OF rK LoadFont_demo_kept(1) LoadFont_demo(2) LoadFont_demo_kept(2)]
  note A4 = A [THEN conjunct2, THEN conjunct2, THEN conjunct2, THEN conjunct1]
  note A5 = A [THEN conjunct2, THEN conjunct2, THEN conjunct2, THEN conjunct2, THEN conjunct1,
      rule_format]
  note A6 = A [THEN conjunct2, THEN conjunct2, THEN conjunct2, THEN conjunct2, THEN conjunct2,
      THEN conjunct1, rule_format, OF refl]
  note B4 = B [THEN conjunct2, THEN conjunct2, THEN conjunct2, THEN conjunct1]
  have HB: "Inl (LoadError ''truetype: bad file'') = Inl (LoadError ''truetype: bad file'')
      \<and> Face fs_broken = None \<and> ''Arial'' \<noteq> []
      \<and> FaceNm [] fl_unbroken (fs_broken\<lparr>FaceName := ''Arial''\<rparr>) = (''Arial'', [])
      \<and> Font X_demo fl_unbroken ''Arial'' 12 =
          (Inr 116, fl_unbroken12, [Call_LoadFontFace ''/fonts/arial.ttf'' 12])"
    by (intro conjI refl fB LoadFont_demo(3) LoadFont_demo(4)) simp
  note B8 = B [THEN conjunct2, THEN conjunct2, THEN conjunct2, THEN conjunct2, THEN conjunct2,
      THEN conjunct2, THEN conjunct2, rule_format, OF HB]
  have HK: "Inl (LoadError ''truetype: bad file'') = Inl (LoadError ''truetype: bad file'')
      \<and> (Face fs_kept \<noteq> None \<or> ''Arial'' = [])"
    using fK by simp
  note K7 = K [THEN conjunct2, THEN conjunct2, THEN conjunct2, THEN conjunct2, THEN conjunct2,
      THEN conjunct2, THEN conjunct1, rule_format, OF HK]
  from A6 have a1: "fst (LoadFont E_demo X_demo [] fl_scanned fs_arial 96 []) = fl_arial12"
    by (simp add: LoadFont_demo_loaded(3))
  from A6 have a2: "snd (snd (snd (LoadFont E_demo X_demo [] fl_scanned fs_arial 96 [])))
       = [Call_Font ''Arial'' 12, Lib (Call_LoadFontFace ''/fonts/arial.ttf'' 12)]"
    by (simp add: LoadFont_demo_loaded(3))
  from A4 have a3: "Em (fst (snd (LoadFont E_demo X_demo [] fl_scanned fs_arial 96 []))) = 12"
    by (simp add: LoadFont_demo_loaded(3))
  from A5 fA have a4: "Em (ComputeMetrics E_demo fs_arial 96) = 12" by simp
  from B8 have b1: "fst (LoadFont E_demo X_demo [] fl_scanned fs_broken 96 ''Arial'') = fl_unbroken12"
    by (simp add: LoadFont_demo(5))
  from B8 have b2: "Face (fst (snd (LoadFont E_demo X_demo [] fl_scanned fs_broken 96 ''Arial'')))
       = Some 116"
    by (simp add: LoadFont_demo(5))
  from B8 have b3: "snd (snd (snd (LoadFont E_demo X_demo [] fl_scanned fs_broken 96 ''Arial'')))
       = [Call_Font ''broken'' 12, Lib (Call_LoadFontFace ''/fonts/broken.ttf'' 12),
          Lib (Log_error_loading ''broken''), Lib (Log_error (LoadError ''truetype: bad file'')),
          Call_Font ''Arial'' 12, Lib (Call_LoadFontFace ''/fonts/arial.ttf'' 12)]"
    by (simp add: LoadFont_demo(5))
  from B4 have b4: "Em (fst (snd (LoadFont E_demo X_demo [] fl_scanned fs_broken 96 ''Arial''))) = 12"
    by (simp add: LoadFont_demo(5))
  from K7 have k1: "fst (LoadFont E_demo X_demo [] fl_scanned fs_kept 96 ''Arial'') = fl_unbroken"
    by (simp add: LoadFont_demo_kept(2))
  from K7 have k2: "Face (fst (snd (LoadFont E_demo X_demo [] fl_scanned fs_kept 96 ''Arial'')))
       = Some 116"
    by (simp add: LoadFont_demo_kept(2))
  from K7 have k3: "snd (snd (snd (LoadFont E_demo X_demo [] fl_scanned fs_kept 96 ''Arial'')))
       = [Call_Font ''broken'' 12, Lib (Call_LoadFontFace ''/fonts/broken.ttf'' 12),
          Lib (Log_error_loading ''broken''), Lib (Log_error (LoadError ''truetype: bad file''))]"
    by (simp add: LoadFont_demo_kept(2))
  show ?thesis
    by (intro conjI rA fA LoadFont_demo_loaded(2) fl_demo_Faces(1) a1 a2 a3 a4 rB fB
        fl_demo_Faces(2) b1 b2 b3 b4 rK fK k1 k2 k3)
qed

subsection \<open>The modifiers of \<open>FaceNm\<close>\<close>

lemma TrimSpace_mods [simp]:
  "TrimSpace ''Bold '' = ''Bold''" "TrimSpace ''Italic'' = ''Italic''"
  "TrimSpace ''Oblique'' = ''Oblique''" "TrimSpace ''Obqlique'' = ''Obqlique''"
  "TrimSpace ''Bold Italic'' = ''Bold Italic''" "TrimSpace ''Bold Oblique'' = ''Bold Oblique''"
  by (simp_all add: TrimSpace_def isSpace_def)

text \<open>
  Bold, italic, bold italic and bold oblique append the words the names say.  The
  oblique style without bold appends \<open>Obqlique\<close>.
\<close>

lemma FaceNm_modifiers:
  assumes "fnm = resolved_family p lib (Family fs)"
  shows "Style fs = FontItalic \<and> Weight fs = WeightBold \<and> \<not> Contains fnm ''Bold''
           \<and> \<not> Contains fnm ''Italic'' \<longrightarrow>
         FaceNm p lib fs = with_modifier lib fnm ''Bold Italic''"
    and "Style fs = FontOblique \<and> Weight fs = WeightBold \<and> \<not> Contains fnm ''Bold''
           \<and> \<not> Contains fnm ''Oblique'' \<longrightarrow>
         FaceNm p lib fs = with_modifier lib fnm ''Bold Oblique''"
    and "Style fs = FontItalic \<and> Weight fs \<noteq> WeightBold \<and> \<not> Contains fnm ''Italic'' \<longrightarrow>
         FaceNm p lib fs = with_modifier lib fnm ''Italic''"
    and "Style fs \<noteq> FontItalic \<and> Style fs \<noteq> FontOblique \<and> Weight fs = WeightBold
           \<and> \<not> Contains fnm ''Bold'' \<longrightarrow>
         FaceNm p lib fs = with_modifier lib fnm ''Bold''"
    and "Style fs = FontOblique \<and> Weight fs \<noteq> WeightBold \<and> \<not> Contains fnm ''Oblique'' \<longrightarrow>
         FaceNm p lib fs = with_modifier lib fnm ''Obqlique''"
  using assms by (simp_all add: FaceNm_def face_mods_def with_modifier_def Let_def)

text \<open>
  Claim C2 fails on the code for the oblique style without bold: the word appended is
  \<open>Obqlique\<close>, so the name looked up is never that of an oblique face.  With Arial and
  Arial Oblique both in the library, a style of family Arial and style oblique resolves
  to the family \<open>Arial\<close>, which does not contain the word \<open>Oblique\<close>; \<open>Arial Oblique\<close>
  is available; and \<open>FaceNm\<close> returns \<open>Arial\<close>, logging that it could not find
  \<open>Arial Obqlique\<close>.
\<close>

theorem FaceNm_oblique_misspelled:
  "resolved_family [] lib_oblique ''Arial'' = ''Arial''
   \<and> \<not> Contains ''Arial'' ''Oblique''
   \<and> FontAvail lib_oblique lib_oblique ''Arial Oblique''
   \<and> FaceNm [] lib_oblique (fs_zero\<lparr>Family := ''Arial'', Style := FontOblique\<rparr>) =
       (''Arial'', [Log_could_not_find_modified ''Arial Obqlique''])"
  by code_simp

section \<open>Properties of the struct table view\<close>

subsection \<open>Inserting a blank record\<close>

text \<open>What \<open>reflect.Append\<close> returns: one element more, the old elements kept, the new
  one after them.\<close>

lemma append_slot_props:
  assumes "n \<le> length arr"
  obtains arr1 where "append_slot g et arr n x = VSlice arr1 (n + 1)"
    and "n < length arr1" and "take n arr1 = take n arr" and "arr1 ! n = x"
proof (cases "n < length arr")
  case True
  show ?thesis
  proof (rule that [of "arr[n := x]"])
    show "append_slot g et arr n x = VSlice (arr[n := x]) (n + 1)"
      using True by (simp add: append_slot_def)
  qed (use True in simp_all)
next
  case False
  then have n: "n = length arr" using assms by simp
  let ?c = "max (n + 1) (g (length arr) (n + 1))"
  let ?arr1 = "take n arr @ [x] @ replicate (?c - (n + 1)) (zero_val et)"
  show ?thesis
  proof (rule that [of ?arr1])
    show "append_slot g et arr n x = VSlice ?arr1 (n + 1)"
      using False by (simp add: append_slot_def Let_def)
    show "n < length ?arr1" using n by simp
    show "take n ?arr1 = take n arr" using n by simp
    show "?arr1 ! n = x" using n by (simp add: nth_append)
  qed
qed

text \<open>The copy and the assignment of the insert branch, on the first \<open>n + 1\<close> slots
  of the array.\<close>

lemma insert_shift:
  assumes "k < n" and "n < length arr1"
  shows "take (n + 1) ((copy_within arr1 (k + 1) k (n - k))[k := z])
           = take k arr1 @ [z] @ drop k (take n arr1)"
proof -
  have len: "length (take (k + 1) arr1) = k + 1" using assms by simp
  have "(copy_within arr1 (k + 1) k (n - k))[k := z]
          = (take (k + 1) arr1)[k := z] @ take (n - k) (drop k arr1) @ drop (n + 1) arr1"
    using assms by (simp add: copy_within_def list_update_append)
  moreover have "(take (k + 1) arr1)[k := z] = take k arr1 @ [z]"
    using assms by (simp add: take_Suc_conv_app_nth list_update_append)
  moreover have "take (n - k) (drop k arr1) = drop k (take n arr1)"
    by (simp add: drop_take)
  ultimately have "(copy_within arr1 (k + 1) k (n - k))[k := z]
          = (take k arr1 @ [z] @ drop k (take n arr1)) @ drop (n + 1) arr1"
    by simp
  moreover have "length (take k arr1 @ [z] @ drop k (take n arr1)) = n + 1"
    using assms by simp
  ultimately show ?thesis by (metis append_eq_conv_conj)
qed

text \<open>
  The view works on the slice through the pointer it holds, and the result is stored
  in the cell the pointer names.  With a negative index, or one from \<open>N - 1\<close> on, the
  blank record is put after the \<open>N\<close> records; with an index \<open>k\<close> below \<open>N - 1\<close> it is
  put at \<open>k\<close> and the records from \<open>k\<close> on move up by one.
\<close>

lemma SliceNewAt_held:
  assumes S: "Slice sv = Some (TPtr (TSlice et), VPtr a)" and H: "h a = Some (VSlice arr n)"
    and N: "n \<le> length arr"
  shows "\<exists>arr'. SliceNewAt g sv h idx = Some (h(a \<mapsto> VSlice arr' (n + 1)), [UpdateStart] @ after_change sv)
            \<and> n < length arr'
            \<and> take (n + 1) arr' =
                (if 0 \<le> idx \<and> idx < int n - 1
                 then take (nat idx) (take n arr) @ [zero_val et] @ drop (nat idx) (take n arr)
                 else take n arr @ [zero_val et])"
proof -
  let ?z = "zero_val et"
  obtain arr1 where A: "append_slot g et arr n ?z = VSlice arr1 (n + 1)"
    and L: "n < length arr1" and T: "take n arr1 = take n arr" and Z: "arr1 ! n = ?z"
    using append_slot_props [OF N] by blast
  have V: "ValueOf (Slice sv) = RV (TPtr (TSlice et)) (VPtr a)" using S by (simp add: ValueOf_def)
  have P: "NonPtrValue h (RV (TPtr (TSlice et)) (VPtr a)) = RV (TSlice et) (VSlice arr n)"
    using H by (simp add: NonPtrValue_def)
  show ?thesis
  proof (cases "0 \<le> idx \<and> idx < int n - 1")
    case False
    then have C: "(0 \<le> idx \<and> idx < int n - 1) = False" by simp
    have "SliceNewAt g sv h idx = Some (h(a \<mapsto> VSlice arr1 (n + 1)), [UpdateStart] @ after_change sv)"
      unfolding SliceNewAt_def V Let_def P using H A C by (auto simp: rType_def)
    moreover have "take (n + 1) arr1 = take n arr @ [?z]"
      using L T Z by (simp add: take_Suc_conv_app_nth)
    ultimately show ?thesis using False L by auto
  next
    case True
    define k where "k = nat idx"
    have k: "idx = int k" "k < n" using True by (auto simp: k_def)
    let ?arr2 = "(copy_within arr1 (k + 1) k (n - k))[k := ?z]"
    have len2: "length ?arr2 = length arr1" using L k by (simp add: copy_within_def)
    have C: "(0 \<le> idx \<and> idx < int n - 1) = True" using True by simp
    have k1: "nat (int k + 1) = Suc k" by simp
    have "SliceNewAt g sv h idx = Some (h(a \<mapsto> VSlice ?arr2 (n + 1)), [UpdateStart] @ after_change sv)"
      unfolding SliceNewAt_def V Let_def P using H A L k C
      by (auto simp: rType_def nat_diff_distrib' k1)
    moreover have "take k arr1 = take k (take n arr)"
      using k(2) by (simp add: T [symmetric] min_def)
    then have "take (n + 1) ?arr2 = take k (take n arr) @ [?z] @ drop k (take n arr)"
      using insert_shift [OF k(2) L, of ?z] T by simp
    ultimately show ?thesis using True L len2 k by auto
  qed
qed

text \<open>On a pointer to a nil slice the result is a slice of the one blank record.\<close>

lemma SliceNewAt_held_nil:
  assumes S: "Slice sv = Some (TPtr (TSlice et), VPtr a)" and H: "h a = Some VNil"
  shows "\<exists>arr'. SliceNewAt g sv h idx = Some (h(a \<mapsto> VSlice arr' 1), [UpdateStart] @ after_change sv)
            \<and> take 1 arr' = [zero_val et]"
proof -
  have V: "ValueOf (Slice sv) = RV (TPtr (TSlice et)) (VPtr a)" using S by (simp add: ValueOf_def)
  have P: "NonPtrValue h (RV (TPtr (TSlice et)) (VPtr a)) = RV (TSlice et) VNil"
    using H by (simp add: NonPtrValue_def)
  let ?arr' = "zero_val et # replicate (max 1 (g 0 1) - 1) (zero_val et)"
  have "SliceNewAt g sv h idx = Some (h(a \<mapsto> VSlice ?arr' 1), [UpdateStart] @ after_change sv)"
    unfolding SliceNewAt_def V Let_def P using H
    by (auto simp: rType_def append_slot_def Let_def)
  then show ?thesis by (intro exI [of _ ?arr']) simp
qed

text \<open>A view that holds the slice value itself, not a pointer to it, panics in
  \<open>svl.Elem()\<close>.\<close>

lemma SliceNewAt_slice_value_panics:
  "Slice sv = Some (TSlice et, v) \<Longrightarrow> SliceNewAt g sv h idx = None"
  by (auto simp: SliceNewAt_def Let_def ValueOf_def NonPtrValue_def split: Option.bind_splits)

lemma SliceNewAt_last_index:
  assumes "Slice sv = Some (TPtr (TSlice et), VPtr a)" and "h a = Some (VSlice arr n)"
    and "n \<le> length arr"
  shows "\<exists>arr'. SliceNewAt g sv h (int n - 1)
                  = Some (h(a \<mapsto> VSlice arr' (n + 1)), [UpdateStart] @ after_change sv)
            \<and> take (n + 1) arr' = take n arr @ [zero_val et]"
  using SliceNewAt_held [where h = h and a = a and g = g and idx = "int n - 1", OF assms] by auto

text \<open>
  Claim C1 fails on the code at the index \<open>k = N - 1\<close>: the test \<open>idx < sz-1\<close> sends it
  to the append branch, so the blank record comes last and the record formerly at
  \<open>N - 1\<close> stays where it was.  On the slice \<open>[r0, r1]\<close> the call \<open>SliceNewAt(1)\<close>
  leaves a slice of length 3 with the elements \<open>[r0, r1, blank]\<close>, where the claim
  has \<open>[r0, blank, r1]\<close>.
\<close>

theorem SliceNewAt_last_index_appends:
  "map_option (\<lambda>(h', ev). h' 1) (SliceNewAt double_cap sv_ptr h_demo 1)
     = Some (Some (VSlice [r0, r1, zero_val T_item, zero_val T_item] 3))
   \<and> take 3 [r0, r1, zero_val T_item, zero_val T_item] = [r0, r1, zero_val T_item]
   \<and> [r0, r1, zero_val T_item] \<noteq> [r0, zero_val T_item, r1]"
  by code_simp

subsection \<open>Deleting a record\<close>

lemma length_copy_within:
  "doff + m \<le> length arr \<Longrightarrow> soff + m \<le> length arr \<Longrightarrow>
   length (copy_within arr doff soff m) = length arr"
  by (simp add: copy_within_def)

lemma delete_shift:
  assumes "k < n" and "n \<le> length arr"
  shows "length ((copy_within arr k (k + 1) (n - 1 - k))[n - 1 := z]) = length arr"
    and "take (n - 1) ((copy_within arr k (k + 1) (n - 1 - k))[n - 1 := z])
           = take k (take n arr) @ drop (k + 1) (take n arr)"
    and "((copy_within arr k (k + 1) (n - 1 - k))[n - 1 := z]) ! (n - 1) = z"
proof -
  define front where "front = take k arr @ take (n - 1 - k) (drop (k + 1) arr)"
  define moved where "moved = copy_within arr k (k + 1) (n - 1 - k)"
  have cw: "moved = front @ drop (n - 1) arr"
    using assms by (simp add: moved_def front_def copy_within_def)
  have lf: "length front = n - 1" using assms by (simp add: front_def)
  have lm: "length moved = length arr"
    using assms by (simp add: moved_def length_copy_within)
  have fr: "front = take k (take n arr) @ drop (k + 1) (take n arr)"
    using assms by (simp add: front_def drop_take min_def)
  have "moved[n - 1 := z] = front @ (drop (n - 1) arr)[0 := z]"
    by (simp add: cw list_update_append lf)
  then have "take (n - 1) (moved[n - 1 := z]) = front"
    by (simp add: lf)
  then show "take (n - 1) ((copy_within arr k (k + 1) (n - 1 - k))[n - 1 := z])
           = take k (take n arr) @ drop (k + 1) (take n arr)"
    by (simp add: fr moved_def)
  show "length ((copy_within arr k (k + 1) (n - 1 - k))[n - 1 := z]) = length arr"
    using lm by (simp add: moved_def)
  have "n - 1 < length moved" using assms lm by simp
  then have "moved[n - 1 := z] ! (n - 1) = z" by simp
  then show "((copy_within arr k (k + 1) (n - 1 - k))[n - 1 := z]) ! (n - 1) = z"
    by (simp add: moved_def)
qed

lemma SliceDelete_slice_value_panics:
  "Slice sv = Some (TSlice et, v) \<Longrightarrow> SliceDelete sv h idx = None"
  by (auto simp: SliceDelete_def Let_def ValueOf_def NonPtrValue_def split: Option.bind_splits)

lemma SliceDelete_held:
  assumes S: "Slice sv = Some (TPtr (TSlice et), VPtr a)" and H: "h a = Some (VSlice arr n)"
    and N: "n \<le> length arr" and K: "k < n"
  shows "\<exists>arr'. SliceDelete sv h (int k)
                  = Some (h(a \<mapsto> VSlice arr' (n - 1)), [UpdateStart] @ after_change sv)
            \<and> length arr' = length arr
            \<and> take (n - 1) arr' = take k (take n arr) @ drop (k + 1) (take n arr)
            \<and> arr' ! (n - 1) = zero_val et"
proof -
  let ?z = "zero_val et"
  let ?arr' = "(copy_within arr k (k + 1) (n - 1 - k))[n - 1 := ?z]"
  have V: "ValueOf (Slice sv) = RV (TPtr (TSlice et)) (VPtr a)" using S by (simp add: ValueOf_def)
  have P: "NonPtrValue h (RV (TPtr (TSlice et)) (VPtr a)) = RV (TSlice et) (VSlice arr n)"
    using H by (simp add: NonPtrValue_def)
  have i1: "nat (int n - 1) = n - 1" and i2: "nat (int k + 1) = k + 1"
    and i3: "nat (int n - 1 - int k) = n - 1 - k" and i4: "nat (int n - (int k + 1)) = n - 1 - k"
    using K by simp_all
  have "SliceDelete sv h (int k)
          = Some (h(a \<mapsto> VSlice ?arr' (n - 1)), [UpdateStart] @ after_change sv)"
    unfolding SliceDelete_def V Let_def P using H N K
    by (auto simp: rType_def i1 i2 i3 i4 length_copy_within)
  with delete_shift [OF K N, of ?z] show ?thesis by blast
qed

text \<open>
  On a view that holds a pointer to a slice of \<open>N\<close> records, \<open>SliceDelete(k)\<close> with
  \<open>k < N\<close> stores a slice of length \<open>N - 1\<close> on the same array: the elements before
  \<open>k\<close> are unchanged, those after \<open>k\<close> are one position down, and the slot \<open>N - 1\<close>
  of the array holds the zero value.
\<close>

lemma SliceDelete_held_elements:
  assumes S: "Slice sv = Some (TPtr (TSlice et), VPtr a)" and H: "h a = Some (VSlice arr n)"
    and N: "n \<le> length arr" and K: "k < n"
  shows "\<exists>arr'. SliceDelete sv h (int k)
                  = Some (h(a \<mapsto> VSlice arr' (n - 1)), [UpdateStart] @ after_change sv)
            \<and> length arr' = length arr
            \<and> (\<forall>i<k. arr' ! i = arr ! i)
            \<and> (\<forall>i. k \<le> i \<and> i < n - 1 \<longrightarrow> arr' ! i = arr ! (i + 1))
            \<and> arr' ! (n - 1) = zero_val et"
proof -
  obtain arr' where R: "SliceDelete sv h (int k)
                  = Some (h(a \<mapsto> VSlice arr' (n - 1)), [UpdateStart] @ after_change sv)"
    and L: "length arr' = length arr"
    and T: "take (n - 1) arr' = take k (take n arr) @ drop (k + 1) (take n arr)"
    and Z: "arr' ! (n - 1) = zero_val et"
    using SliceDelete_held [where h = h and a = a, OF S H N K] by blast
  have below: "arr' ! i = arr ! i" if "i < k" for i
  proof -
    have "take (n - 1) arr' ! i = arr' ! i" using that K by simp
    moreover have "(take k (take n arr) @ drop (k + 1) (take n arr)) ! i = arr ! i"
      using that K N by (simp add: nth_append)
    ultimately show ?thesis by (simp only: T)
  qed
  have above: "arr' ! i = arr ! (i + 1)" if "k \<le> i" and "i < n - 1" for i
  proof -
    have "take (n - 1) arr' ! i = arr' ! i" using that by simp
    moreover have "(take k (take n arr) @ drop (k + 1) (take n arr)) ! i = arr ! (i + 1)"
      using that K N by (simp add: nth_append min_def)
    ultimately show ?thesis by (simp only: T)
  qed
  from R L Z below above show ?thesis by blast
qed

text \<open>
  The view cannot show such a pointer.  The rebuild of the grid asks the element type
  of the held value for its fields, which panics when that is the slice type a pointer
  points to, and \<open>SetSlice\<close> refuses a pointer to a slice with its log line.
\<close>

lemma ConfigSliceGrid_pointer_panics:
  assumes "Slice sv = Some (TPtr (TSlice et), VPtr a)" and "h a = Some (VSlice arr n)"
  shows "ConfigSliceGrid W tvv h sv = None"
  using assms by (simp add: ConfigSliceGrid_def IfaceIsNil_def ValueOf_def NonPtrValue_def TypeOf_def)

text \<open>The view \<open>sv_shown\<close> is the one that \<open>SetSlice\<close> builds from the empty view and
  the slice \<open>[r0, r1]\<close>.\<close>

lemma SetSlice_builds_shown_view:
  "map_option fst (SetSlice W_first (\<lambda>t. True) h_demo sv_new
       (Some (TSlice T_item, VSlice [r0, r1] 2)) (Some (ExternalView 3))) = Some sv_shown"
  by code_simp

text \<open>
  Claim C6 fails on the code on every view that shows a slice.  \<open>SetSlice\<close> stores the
  slice value itself, and \<open>SliceDelete\<close> stores its result through \<open>svl.Elem()\<close>, which
  panics on a value that is not a pointer.  On the view that holds the slice \<open>[r0, r1]\<close>
  of two records, \<open>SliceDelete(0)\<close> and \<open>SliceDelete(1)\<close> panic: the call does not
  return, and the slice held is never shortened.  So does \<open>SliceDelete(1)\<close> on the
  view that holds the three records \<open>[r0, r1, r2]\<close>.
\<close>

theorem SliceDelete_shown_slice_panics:
  "Slice sv_shown = Some (TSlice T_item, VSlice [r0, r1] 2)
   \<and> SliceDelete sv_shown h_demo 0 = None
   \<and> SliceDelete sv_shown h_demo 1 = None
   \<and> SliceDelete (sv_shown\<lparr>Slice := Some (TSlice T_item, VSlice [r0, r1, r2] 3)\<rparr>) h_demo 1 = None"
  by code_simp

subsection \<open>The order of saving and signalling\<close>

text \<open>
  Claim C8.  When the view has a pending-save view \<open>tv\<close>, every run of \<open>SliceNewAt\<close>
  and of \<open>SliceDelete\<close> that returns has made exactly these calls, in this order:
  \<open>UpdateStart\<close>, \<open>tv.SaveTmp\<close>, \<open>SetFullReRender\<close>, \<open>UpdateEnd\<close>, \<open>ViewSig.Emit\<close>;
  so \<open>SaveTmp\<close> is called once, before the one emission of the signal.  And the runs
  do return: on a view that holds a pointer to a slice of \<open>N\<close> records, \<open>SliceNewAt\<close>
  returns for every index and \<open>SliceDelete\<close> for every index from 0 up to \<open>N - 1\<close>.
\<close>

theorem SaveTmp_before_ViewSig_Emit:
  assumes "TmpSave sv = Some tv"
  shows "(\<forall>h' ev. SliceNewAt g sv h idx = Some (h', ev) \<longrightarrow>
            ev = [UpdateStart, SaveTmp tv, SetFullReRender, UpdateEnd, ViewSig_Emit])
       \<and> (\<forall>h' ev. SliceDelete sv h idx = Some (h', ev) \<longrightarrow>
            ev = [UpdateStart, SaveTmp tv, SetFullReRender, UpdateEnd, ViewSig_Emit])
       \<and> (Slice sv = Some (TPtr (TSlice et), VPtr a) \<and> h a = Some (VSlice arr n)
            \<and> n \<le> length arr \<longrightarrow>
          (\<exists>h'. SliceNewAt g sv h idx =
                  Some (h', [UpdateStart, SaveTmp tv, SetFullReRender, UpdateEnd, ViewSig_Emit]))
          \<and> (0 \<le> idx \<and> idx < int n \<longrightarrow>
               (\<exists>h'. SliceDelete sv h idx =
                  Some (h', [UpdateStart, SaveTmp tv, SetFullReRender, UpdateEnd, ViewSig_Emit]))))"
proof (intro conjI impI allI)
  fix h' ev
  assume "SliceNewAt g sv h idx = Some (h', ev)"
  with assms show "ev = [UpdateStart, SaveTmp tv, SetFullReRender, UpdateEnd, ViewSig_Emit]"
    by (auto simp: SliceNewAt_def Let_def after_change_def bind_eq_Some_conv)
next
  fix h' ev
  assume "SliceDelete sv h idx = Some (h', ev)"
  with assms show "ev = [UpdateStart, SaveTmp tv, SetFullReRender, UpdateEnd, ViewSig_Emit]"
    by (auto simp: SliceDelete_def Let_def after_change_def bind_eq_Some_conv)
next
  assume P: "Slice sv = Some (TPtr (TSlice et), VPtr a) \<and> h a = Some (VSlice arr n)
            \<and> n \<le> length arr"
  then have S: "Slice sv = Some (TPtr (TSlice et), VPtr a)" and H: "h a = Some (VSlice arr n)"
    and N: "n \<le> length arr" by blast+
  have E: "[UpdateStart] @ after_change sv =
             [UpdateStart, SaveTmp tv, SetFullReRender, UpdateEnd, ViewSig_Emit]"
    using assms by (simp add: after_change_def)
  from SliceNewAt_held [where h = h and a = a and g = g and idx = idx, OF S H N]
  show "\<exists>h'. SliceNewAt g sv h idx =
                  Some (h', [UpdateStart, SaveTmp tv, SetFullReRender, UpdateEnd, ViewSig_Emit])"
    unfolding E by blast
  assume I: "0 \<le> idx \<and> idx < int n"
  then have K: "nat idx < n" and C: "int (nat idx) = idx" by auto
  from SliceDelete_held [where h = h and a = a, OF S H N K]
  show "\<exists>h'. SliceDelete sv h idx =
                  Some (h', [UpdateStart, SaveTmp tv, SetFullReRender, UpdateEnd, ViewSig_Emit])"
    unfolding E C by blast
qed

theorem SaveTmp_before_ViewSig_Emit_witness:
  "TmpSave sv_ptr2 = Some (ExternalView 7)
   \<and> (\<exists>h'. SliceNewAt double_cap sv_ptr2 h_demo 1 =
          Some (h', [UpdateStart, SaveTmp (ExternalView 7), SetFullReRender, UpdateEnd, ViewSig_Emit]))
   \<and> (\<exists>h'. SliceDelete sv_ptr2 h_demo 1 =
          Some (h', [UpdateStart, SaveTmp (ExternalView 7), SetFullReRender, UpdateEnd, ViewSig_Emit]))"
proof -
  have T: "TmpSave sv_ptr2 = Some (ExternalView 7)" by (simp add: sv_ptr2_def)
  have S: "Slice sv_ptr2 = Some (TPtr (TSlice T_item), VPtr 2)" by (simp add: sv_ptr2_def)
  have H: "h_demo 2 = Some (VSlice [r0, r1, r2, r2] 3)" by (simp add: h_demo_def)
  have N: "3 \<le> length [r0, r1, r2, r2]" by simp
  have I: "(0::int) \<le> 1 \<and> (1::int) < int 3" by simp
  from SaveTmp_before_ViewSig_Emit [OF T, where h = h_demo and a = 2 and idx = 1
      and g = double_cap and et = T_item and arr = "[r0, r1, r2, r2]" and n = 3] S H N I T
  show ?thesis by blast
qed

subsection \<open>\<open>SetSlice\<close>\<close>

lemma grid_cells_shape:
  "length (grid_cells tvv fs n) = length fs"
  "list_all (\<lambda>col. length col = n) (grid_cells tvv fs n)"
  by (simp_all add: grid_cells_def list_all_iff)

text \<open>
  A value that the comparison finds different from the one held, and that is a slice
  of structs whose fields all have a value view (or is empty), is stored with the
  pending-save view, and \<open>Values\<close> gets one column per field and one cell per
  element.  The widget tree has both layouts.
\<close>

lemma SetSlice_stores_new_slice:
  assumes N: "iface_neq (Slice sv) sl = Some True"
    and SL: "sl = Some (TSlice (TStruct nm fs), VSlice arr n)"
    and V: "n = 0 \<or> list_all tvv fs"
    and G: "SliceGrid_present W" and B: "ButtonBox_present W"
  shows "SetSlice W tvv h sv sl ts =
      Some (sv\<lparr>Slice := sl, TmpSave := ts, Values := grid_cells tvv fs n\<rparr>,
            [UpdateStart, StdConfig, Grid_ConfigChildren]
            @ (if SliceGrid_mods W then [SetFullReRender] else [Grid_UpdateStart])
            @ [Grid_UpdateEnd, Buttons_ConfigChildren]
            @ (if ButtonBox_mods W then [Buttons_UpdateEnd] else [])
            @ (if StdConfig_mods W then [UpdateEnd] else [])
            @ [UpdateEnd])"
proof -
  let ?sv1 = "sv\<lparr>Slice := sl, TmpSave := ts\<rparr>"
  let ?sv2 = "?sv1\<lparr>Values := grid_cells tvv fs n\<rparr>"
  have C: "ConfigSliceGrid W tvv h ?sv1 =
             Some (?sv2, [Grid_ConfigChildren]
                         @ (if SliceGrid_mods W then [SetFullReRender] else [Grid_UpdateStart])
                         @ [Grid_UpdateEnd])"
    using SL V G
    by (auto simp: ConfigSliceGrid_def IfaceIsNil_def ValueOf_def NonPtrValue_def TypeOf_def)
  have K: "ConfigSliceButtons W ?sv2 =
             Some ([Buttons_ConfigChildren] @ (if ButtonBox_mods W then [Buttons_UpdateEnd] else []))"
    using SL B by (simp add: ConfigSliceButtons_def IfaceIsNil_def)
  have U: "UpdateFromSlice W tvv h ?sv1 =
             Some (?sv2, [StdConfig]
                         @ ([Grid_ConfigChildren]
                            @ (if SliceGrid_mods W then [SetFullReRender] else [Grid_UpdateStart])
                            @ [Grid_UpdateEnd])
                         @ ([Buttons_ConfigChildren]
                            @ (if ButtonBox_mods W then [Buttons_UpdateEnd] else []))
                         @ (if StdConfig_mods W then [UpdateEnd] else []))"
    unfolding UpdateFromSlice_def C by (simp add: K)
  have E: "TypeOf sl = Some (TSlice (TStruct nm fs))" using SL by (simp add: TypeOf_def)
  show ?thesis unfolding SetSlice_def N E U by simp
qed

text \<open>
  The views that \<open>SetSlice\<close> produces hold nothing or a value whose element type is a
  struct: the empty view is such a view, and \<open>SetSlice\<close> keeps the property.  On such a
  view, a value whose element type is not a struct is refused: the view is returned as
  it was, and the only event is the log line.
\<close>

lemma ConfigSliceGrid_Slice:
  "ConfigSliceGrid W tvv h a = Some (b, e) \<Longrightarrow> Slice b = Slice a"
  by (auto simp: ConfigSliceGrid_def bind_eq_Some_conv split: if_splits)

lemma UpdateFromSlice_Slice:
  assumes "UpdateFromSlice W tvv h a = Some (b, e)"
  shows "Slice b = Slice a"
proof -
  from assms obtain g where "ConfigSliceGrid W tvv h a = Some (b, g)"
    by (auto simp: UpdateFromSlice_def bind_eq_Some_conv)
  then show ?thesis by (rule ConfigSliceGrid_Slice)
qed

lemma SetSlice_keeps_struct_elems:
  assumes I: "struct_elems (Slice sv)" and R: "SetSlice W tvv h sv sl ts = Some (sv', ev)"
  shows "struct_elems (Slice sv')"
proof -
  from R obtain differs where D: "iface_neq (Slice sv) sl = Some differs"
    by (auto simp: SetSlice_def bind_eq_Some_conv)
  show ?thesis
  proof (cases differs)
    case False
    with R D obtain e0 where "UpdateFromSlice W tvv h (sv\<lparr>TmpSave := ts\<rparr>) = Some (sv', e0)"
      by (auto simp: SetSlice_def bind_eq_Some_conv)
    from UpdateFromSlice_Slice [OF this] I show ?thesis by simp
  next
    case True
    with R D obtain t e where T: "TypeOf sl = Some t" and E: "TypeElem t = Some e"
      by (auto simp: SetSlice_def bind_eq_Some_conv)
    show ?thesis
    proof (cases "Kind_of e = KStruct")
      case False
      with R D True T E have "sv' = sv" by (simp add: SetSlice_def)
      with I show ?thesis by simp
    next
      case K: True
      with R D True T E obtain e0 where
        "UpdateFromSlice W tvv h (sv\<lparr>Slice := sl, TmpSave := ts\<rparr>) = Some (sv', e0)"
        by (auto simp: SetSlice_def bind_eq_Some_conv)
      from UpdateFromSlice_Slice [OF this] have "Slice sv' = sl" by simp
      moreover from T obtain v where "sl = Some (t, v)"
        by (auto simp: TypeOf_def split: option.splits)
      ultimately show ?thesis using E K by (simp add: struct_elems_def)
    qed
  qed
qed

lemma SetSlice_refuses_non_struct:
  assumes I: "struct_elems (Slice sv)"
    and T: "TypeOf sl = Some t" and E: "TypeElem t = Some e" and K: "Kind_of e \<noteq> KStruct"
  shows "SetSlice W tvv h sv sl ts = Some (sv, [Log_not_struct e])"
proof -
  obtain v where SL: "sl = Some (t, v)" using T by (auto simp: TypeOf_def split: option.splits)
  have "iface_neq (Slice sv) sl = Some True"
  proof (cases "Slice sv")
    case None
    then show ?thesis by (simp add: SL)
  next
    case (Some tv)
    obtain t0 v0 where tv: "tv = (t0, v0)" by (cases tv)
    from I Some tv E K have "t0 \<noteq> t" by (auto simp: struct_elems_def split: option.splits)
    then show ?thesis by (simp add: Some tv SL)
  qed
  then show ?thesis using T E K by (simp add: SetSlice_def)
qed

lemma SetSlice_refuses_pointer_to_slice:
  assumes "struct_elems (Slice sv)"
  shows "SetSlice W tvv h sv (Some (TPtr (TSlice et), VPtr a)) ts
           = Some (sv, [Log_not_struct (TSlice et)])"
  using SetSlice_refuses_non_struct
    [OF assms, of "Some (TPtr (TSlice et), VPtr a)" "TPtr (TSlice et)" "TSlice et"]
  by (simp add: TypeOf_def)

text \<open>When the view holds a slice value and is given a slice value of the same type,
  the comparison \<open>sv.Slice != sl\<close> panics, whatever the two slices are.\<close>

lemma SetSlice_same_slice_type_panics:
  "Slice sv = Some (TSlice t, v) \<Longrightarrow> SetSlice W tvv h sv (Some (TSlice t, v')) ts = None"
  by (simp add: SetSlice_def)

text \<open>
  Claim C3 fails on the code for the second slice that a view is given.  The empty
  view accepts the slice \<open>[r0, r1]\<close> of structs: it stores the slice and the
  pending-save view and builds the grid of two columns and two rows.  The view then
  holds a slice value, and the test \<open>sv.Slice != sl\<close> compares it with the value passed.
  Given the slice \<open>[r0, r1, r2]\<close> of the same struct type, or the slice \<open>[r0, r1]\<close>
  again, that comparison panics, slices not being comparable: the slice is not
  accepted and the grid is not rebuilt.
\<close>

theorem SetSlice_second_slice_panics:
  "SetSlice W_first (\<lambda>t. True) h_demo sv_new (Some (TSlice T_item, VSlice [r0, r1] 2))
       (Some (ExternalView 3))
     = Some (sv_shown,
             [UpdateStart, StdConfig, Grid_ConfigChildren, SetFullReRender, Grid_UpdateEnd,
              Buttons_ConfigChildren, Buttons_UpdateEnd, UpdateEnd, UpdateEnd])
   \<and> TypeElem (TSlice T_item) = Some T_item \<and> Kind_of T_item = KStruct
   \<and> SetSlice W_later (\<lambda>t. True) h_demo sv_shown (Some (TSlice T_item, VSlice [r0, r1, r2] 3))
       (Some (ExternalView 3)) = None
   \<and> SetSlice W_later (\<lambda>t. True) h_demo sv_shown (Some (TSlice T_item, VSlice [r0, r1] 2))
       (Some (ExternalView 3)) = None"
  by code_simp

end
